theory Spec2Isabelle
  imports Main "HOL-Library.Sublist"
begin

section \<open>Exceptions and outcomes\<close>

text \<open>
  A Python call either returns a value or raises. The model covers the instances of
  \<^verbatim>\<open>Exception\<close>: an \<^verbatim>\<open>MlflowException\<close> carries the name of its error code
  (the string that \<^verbatim>\<open>e.error_code\<close> holds) and a message, any other exception its
  class name and a message.
\<close>

datatype exn =
    MlflowException (error_code: string) (message: string)
  | OtherException (exn_class: string) (exn_message: string)

datatype 'a outcome = Raised exn | Returned 'a

text \<open>The names that \<^verbatim>\<open>ErrorCode.Name\<close> gives for the imported codes.\<close>

definition RESOURCE_ALREADY_EXISTS :: string where
  "RESOURCE_ALREADY_EXISTS = ''RESOURCE_ALREADY_EXISTS''"

definition ALREADY_EXISTS :: string where
  "ALREADY_EXISTS = ''ALREADY_EXISTS''"

definition NOT_FOUND :: string where
  "NOT_FOUND = ''NOT_FOUND''"

definition INVALID_PARAMETER_VALUE :: string where
  "INVALID_PARAMETER_VALUE = ''INVALID_PARAMETER_VALUE''"

definition INTERNAL_ERROR :: string where
  "INTERNAL_ERROR = ''INTERNAL_ERROR''"

text \<open>
  What a caller passes as \<^verbatim>\<open>error_code\<close> to the constructor of
  \<^verbatim>\<open>MlflowException\<close>. The constructor expects a value of the enum
  \<^verbatim>\<open>ErrorCode\<close>, here given by its name; Python lets the caller pass a string
  as well.
\<close>

datatype error_code_arg = EnumValue string | StrObject string

text \<open>
  \<^verbatim>\<open>ErrorCode.Name(error_code)\<close>: the name of a value of the enum, and a
  \<^verbatim>\<open>TypeError\<close> for a string. The text of that error comes from the protobuf
  runtime; no caller in this module reads it, and it is left empty.
\<close>

definition ErrorCode_Name :: "error_code_arg \<Rightarrow> string outcome" where
  "ErrorCode_Name arg =
     (case arg of
        EnumValue name \<Rightarrow> Returned name
      | StrObject s \<Rightarrow> Raised (OtherException ''TypeError'' []))"

text \<open>
  The constructor \<^verbatim>\<open>MlflowException(message, error_code=...)\<close>, of
  \<^verbatim>\<open>mlflow.exceptions\<close>: it keeps \<^verbatim>\<open>ErrorCode.Name(error_code)\<close> as
  \<^verbatim>\<open>self.error_code\<close>, and the name of \<^verbatim>\<open>INTERNAL_ERROR\<close> when that call
  raises a \<^verbatim>\<open>ValueError\<close> or a \<^verbatim>\<open>TypeError\<close>.
\<close>

definition new_MlflowException :: "string \<Rightarrow> error_code_arg \<Rightarrow> exn" where
  "new_MlflowException msg arg =
     (case ErrorCode_Name arg of
        Returned name \<Rightarrow> MlflowException name msg
      | Raised e \<Rightarrow> MlflowException INTERNAL_ERROR msg)"

text \<open>
  \<^verbatim>\<open>MlflowException.invalid_parameter_value(msg)\<close>: the constructor called with
  the value \<^verbatim>\<open>INVALID_PARAMETER_VALUE\<close> of the enum.
\<close>

definition invalid_parameter_value :: "string \<Rightarrow> exn" where
  "invalid_parameter_value msg = new_MlflowException msg (EnumValue INVALID_PARAMETER_VALUE)"

text \<open>\<^verbatim>\<open>str(e)\<close>, the text an f-string prints for \<^verbatim>\<open>{e!s}\<close>.\<close>

definition exn_str :: "exn \<Rightarrow> string" where
  "exn_str e = (case e of MlflowException c m \<Rightarrow> m | OtherException c m \<Rightarrow> m)"

section \<open>Entities\<close>

record run_info =
  run_id :: string
  experiment_id :: string

record logged_model_output =
  output_model_id :: string
  step :: int

record run_outputs =
  model_outputs :: "logged_model_output list"

record run =
  info :: run_info
  outputs :: "run_outputs option"

record logged_model =
  model_id :: string
  model_name :: string
  source_run_id :: "string option"
  tags :: "string \<rightharpoonup> string"

record registered_model =
  registered_name :: string

text \<open>
  A value that is a string or an integer: the \<^verbatim>\<open>version\<close> argument of the prompt
  functions, and the \<^verbatim>\<open>version\<close> of a model version, which the entity declares as
  a string and which a store may return as an integer.
\<close>

datatype version_arg = VersionStr string | VersionInt int

record model_version =
  version_name :: string
  version :: version_arg

record file_info =
  path :: string
  is_dir :: bool

record prompt_version =
  prompt_name :: string
  prompt_version_number :: int
  template :: string

text \<open>A \<^verbatim>\<open>PagedList\<close>: the items of one page and the token of the next one.\<close>

record 'a paged_list =
  items :: "'a list"
  token :: "string option"

text \<open>The values \<^verbatim>\<open>json.loads\<close> returns (floats are left out).\<close>

datatype json =
    JNull
  | JBool bool
  | JInt int
  | JStr string
  | JList "json list"
  | JObject "(string \<times> json) list"

text \<open>Python's truth value of an optional string: \<^verbatim>\<open>None\<close> and \<^verbatim>\<open>""\<close> are false.\<close>

definition truthy :: "string option \<Rightarrow> bool" where
  "truthy t = (case t of None \<Rightarrow> False | Some s \<Rightarrow> s \<noteq> [])"

text \<open>\<^verbatim>\<open>str(n)\<close> for an integer.\<close>

fun str_nat :: "nat \<Rightarrow> string" where
  "str_nat n =
     (if n < 10 then [char_of (48 + n)] else str_nat (n div 10) @ [char_of (48 + n mod 10)])"

definition str_int :: "int \<Rightarrow> string" where
  "str_int i = (if i < 0 then CHR ''-'' # str_nat (nat (- i)) else str_nat (nat i))"

text \<open>\<^verbatim>\<open>str(v)\<close> for a string or an integer, as an f-string prints it.\<close>

definition str_version :: "version_arg \<Rightarrow> string" where
  "str_version v = (case v of VersionStr s \<Rightarrow> s | VersionInt i \<Rightarrow> str_int i)"

text \<open>The same value inside a list or a dictionary that \<^verbatim>\<open>json.dumps\<close> is given.\<close>

definition json_of_version :: "version_arg \<Rightarrow> json" where
  "json_of_version v = (case v of VersionStr s \<Rightarrow> JStr s | VersionInt i \<Rightarrow> JInt i)"

section \<open>The world outside the module\<close>

text \<open>
  Every call that leaves the module is an event, and the trace lists the events in the
  order the module issued them. The state of the services behind the calls is the type
  parameter \<open>'s\<close>, about which the module knows nothing: a call takes that state and
  returns its outcome with the state it leaves.
\<close>

record create_version_args =
  arg_name :: string
  arg_source :: string
  arg_run_id :: "string option"
  arg_tags :: "(string \<times> string) list option"
  arg_await_creation_for :: "int option"
  arg_local_model_path :: "string option"
  arg_model_id :: "string option"

text \<open>The target of a background thread, with the variables its closure holds.\<close>

datatype thread_target = LinkPromptAsync prompt_version string

datatype event =
    CreateRegisteredModel string
  | NewRunsArtifactRepository string
  | ListRunArtifacts string
  | GetUnderlyingUri string
  | GetRun string
  | SearchLoggedModels "string list" string "string option"
  | ParseModelIdIfPresent string
  | PackEnvEnter string
  | PackEnvExit
  | LogModelArtifacts "string option" string
  | CreateModelVersion create_version_args
  | GetRegistryUri
  | PrintModelUrlsOnCreation
  | GetWorkspaceUrl
  | GetWorkspaceId
  | GetLoggedModel string
  | SetLoggedModelTags string "(string \<times> string) list"
  | StageModel string version_arg
  | Eprint string
  | LoggerWarning string
  | SearchRegisteredModels int "string option" "string list option" "string option"
  | SearchModelVersions int "string option" "string list option" "string option"
  | RequirePromptRegistry
  | WarningsWarn string
  | ClientLoadPrompt string "version_arg option" bool
  | ActiveRun
  | LinkPromptVersionToRun string string
  | GetActiveModelId
  | Uuid4
  | ThreadStart string thread_target
  | LinkPromptVersionToModel string int string
  | GetActiveTraceId
  | RegisterPrompt string prompt_version

type_synonym cache_key = "string \<times> version_arg option \<times> bool"

record 's world =
  services :: 's
  trace :: "event list"
  prompt_cache :: "(cache_key \<times> prompt_version option) list"

type_synonym ('s, 'a) remote = "'s \<Rightarrow> 'a outcome \<times> 's"

definition call :: "event \<Rightarrow> ('s, 'a) remote \<Rightarrow> 's world \<Rightarrow> 'a outcome \<times> 's world" where
  "call ev f w =
     (case f (services w) of (r, s') \<Rightarrow> (r, w\<lparr>services := s', trace := trace w @ [ev]\<rparr>))"

text \<open>The methods of \<^verbatim>\<open>MlflowClient\<close> that the module calls.\<close>

record 's mlflow_client =
  create_registered_model :: "string \<Rightarrow> ('s, registered_model) remote"
  get_run :: "string \<Rightarrow> ('s, run) remote"
  search_logged_models ::
    "string list \<Rightarrow> string \<Rightarrow> string option \<Rightarrow> ('s, logged_model paged_list) remote"
  log_model_artifacts :: "string option \<Rightarrow> string \<Rightarrow> ('s, unit) remote"
  create_model_version :: "create_version_args \<Rightarrow> ('s, model_version) remote"
  get_logged_model :: "string \<Rightarrow> ('s, logged_model) remote"
  set_logged_model_tags :: "string \<Rightarrow> (string \<times> string) list \<Rightarrow> ('s, unit) remote"
  client_search_registered_models ::
    "int \<Rightarrow> string option \<Rightarrow> string list option \<Rightarrow> string option \<Rightarrow>
     ('s, registered_model paged_list) remote"
  client_search_model_versions ::
    "int \<Rightarrow> string option \<Rightarrow> string list option \<Rightarrow> string option \<Rightarrow>
     ('s, model_version paged_list) remote"
  client_load_prompt ::
    "string \<Rightarrow> version_arg option \<Rightarrow> bool \<Rightarrow> ('s, prompt_version option) remote"
  link_prompt_version_to_run :: "string \<Rightarrow> string \<Rightarrow> ('s, unit) remote"
  link_prompt_version_to_model :: "string \<Rightarrow> int \<Rightarrow> string \<Rightarrow> ('s, unit) remote"

text \<open>
  The other imports of the module: functions, constants and environment variables that
  are defined outside it. The pure ones take no state.
\<close>

record 's externals =
  is_runs_uri :: "string \<Rightarrow> bool"
  parse_runs_uri :: "string \<Rightarrow> (string \<times> string) outcome"
  new_runs_artifact_repo :: "string \<Rightarrow> ('s, unit) remote"
  list_run_artifacts :: "string \<Rightarrow> ('s, file_info list) remote"
  get_underlying_uri :: "string \<Rightarrow> ('s, string) remote"
  parse_model_id_if_present :: "string \<Rightarrow> ('s, string option) remote"
  pack_env_enter :: "string \<Rightarrow> ('s, string) remote"
  pack_env_exit :: "('s, unit) remote"
  get_registry_uri :: "('s, string) remote"
  print_model_urls_on_creation :: "('s, bool) remote"
  is_databricks_unity_catalog_uri :: "string \<Rightarrow> bool"
  get_workspace_url :: "('s, string option) remote"
  get_workspace_id :: "('s, string option) remote"
  construct_databricks_uc_registered_model_url ::
    "string \<Rightarrow> string \<Rightarrow> version_arg \<Rightarrow> string option \<Rightarrow> string"
  stage_model_for_databricks_model_serving ::
    "string \<Rightarrow> version_arg \<Rightarrow> ('s, unit) remote"
  json_loads :: "string \<Rightarrow> json outcome"
  json_dumps :: "json \<Rightarrow> string"
  py_repr :: "string \<Rightarrow> string"
  MLMODEL_FILE_NAME :: string
  MLFLOW_MODEL_VERSIONS :: string
  SEARCH_REGISTERED_MODEL_MAX_RESULTS_DEFAULT :: int
  SEARCH_MODEL_VERSION_MAX_RESULTS_DEFAULT :: int
  MLFLOW_PROMPT_CACHE_MAX_SIZE :: int
  require_prompt_registry :: "('s, unit) remote"
  warnings_warn :: "string \<Rightarrow> ('s, unit) remote"
  parse_prompt_name_or_uri ::
    "string \<Rightarrow> version_arg option \<Rightarrow> (string \<times> version_arg option) outcome"
  active_run :: "('s, run option) remote"
  get_active_model_id :: "('s, string option) remote"
  uuid4_hex :: "('s, string) remote"
  thread_start :: "string \<Rightarrow> ('s, unit) remote"
  get_active_trace_id :: "('s, string option) remote"
  register_prompt :: "string \<Rightarrow> prompt_version \<Rightarrow> ('s, unit) remote"

section \<open>Programs\<close>

text \<open>
  A program takes the world and returns an outcome with the world it leaves, or \<open>None\<close>
  when it does not return at all.
\<close>

type_synonym ('s, 'a) prog = "'s world \<Rightarrow> ('a outcome \<times> 's world) option"

definition succeed :: "'a \<Rightarrow> ('s, 'a) prog" where
  "succeed x w = Some (Returned x, w)"

definition raise :: "exn \<Rightarrow> ('s, 'a) prog" where
  "raise e w = Some (Raised e, w)"

definition seq :: "('s, 'a) prog \<Rightarrow> ('a \<Rightarrow> ('s, 'b) prog) \<Rightarrow> ('s, 'b) prog" where
  "seq m k w =
     (case m w of
        None \<Rightarrow> None
      | Some (Raised e, w') \<Rightarrow> Some (Raised e, w')
      | Some (Returned x, w') \<Rightarrow> k x w')"

text \<open>\<^verbatim>\<open>try: m except Exception as e: h(e)\<close>.\<close>

definition catch :: "('s, 'a) prog \<Rightarrow> (exn \<Rightarrow> ('s, 'a) prog) \<Rightarrow> ('s, 'a) prog" where
  "catch m h w =
     (case m w of
        None \<Rightarrow> None
      | Some (Raised e, w') \<Rightarrow> h e w'
      | Some (Returned x, w') \<Rightarrow> Some (Returned x, w'))"

text \<open>
  \<^verbatim>\<open>with ... : m\<close>, for a context manager that does not suppress exceptions: the exit
  runs whatever \<open>m\<close> did, and an exception of the exit replaces the outcome of \<open>m\<close>.
\<close>

definition with_exit :: "('s, 'a) prog \<Rightarrow> ('s, unit) prog \<Rightarrow> ('s, 'a) prog" where
  "with_exit m cleanup w =
     (case m w of
        None \<Rightarrow> None
      | Some (r, w') \<Rightarrow>
          (case cleanup w' of
             None \<Rightarrow> None
           | Some (Raised e, w'') \<Rightarrow> Some (Raised e, w'')
           | Some (Returned u, w'') \<Rightarrow> Some (r, w'')))"

definition perform :: "event \<Rightarrow> ('s, 'a) remote \<Rightarrow> ('s, 'a) prog" where
  "perform ev f w = Some (call ev f w)"

definition emit :: "event \<Rightarrow> ('s, unit) prog" where
  "emit ev w = Some (Returned (), w\<lparr>trace := trace w @ [ev]\<rparr>)"

definition of_outcome :: "'a outcome \<Rightarrow> ('s, 'a) prog" where
  "of_outcome r w = Some (r, w)"

section \<open>Logged models of a run\<close>

text \<open>The filter string \<^verbatim>\<open>f"name = '{model_name}'"\<close>.\<close>

definition name_filter :: "string \<Rightarrow> string" where
  "name_filter nm = ''name = '' @ [CHR 0x27] @ nm @ [CHR 0x27]"

definition from_run :: "run \<Rightarrow> logged_model \<Rightarrow> bool" where
  "from_run source_run m = (source_run_id m = Some (run_id (info source_run)))"

text \<open>
  The \<^verbatim>\<open>while True\<close> loop of \<^verbatim>\<open>_get_logged_models_from_run\<close>, with
  \<^verbatim>\<open>logged_models\<close> and \<^verbatim>\<open>page_token\<close> as arguments. A remote that never
  returns an empty token keeps the loop running: the value is then \<open>None\<close>.
\<close>

partial_function (option) logged_models_loop ::
  "'s mlflow_client \<Rightarrow> run \<Rightarrow> string \<Rightarrow> logged_model list \<Rightarrow> string option \<Rightarrow>
   's world \<Rightarrow> (logged_model list outcome \<times> 's world) option" where
  "logged_models_loop client source_run nm logged_models page_token w =
     (case call (SearchLoggedModels [experiment_id (info source_run)] (name_filter nm) page_token)
             (search_logged_models client [experiment_id (info source_run)] (name_filter nm)
                page_token) w of
        (Raised e, w') \<Rightarrow> Some (Raised e, w')
      | (Returned logged_models_page, w') \<Rightarrow>
          (let logged_models' =
                 logged_models @ filter (from_run source_run) (items logged_models_page)
           in if \<not> truthy (token logged_models_page) then Some (Returned logged_models', w')
              else logged_models_loop client source_run nm logged_models'
                     (token logged_models_page) w'))"

declare logged_models_loop.simps [code]

definition get_logged_models_from_run ::
  "'s mlflow_client \<Rightarrow> run \<Rightarrow> string \<Rightarrow> ('s, logged_model list) prog" where
  "get_logged_models_from_run client source_run nm w =
     logged_models_loop client source_run nm [] None w"

text \<open>
  The remote answers the calls of one pagination with the pages \<open>ps\<close>: the call with the
  token \<open>tok\<close> in the state \<open>s\<close> returns the first page, the call with that page's token
  in the state it left returns the second, and so on; \<open>s'\<close> is the state after the last.
\<close>

fun remote_serves ::
  "(string option \<Rightarrow> ('s, 'a paged_list) remote) \<Rightarrow> string option \<Rightarrow> 's \<Rightarrow>
   'a paged_list list \<Rightarrow> 's \<Rightarrow> bool" where
  "remote_serves search tok s [] s' = False"
| "remote_serves search tok s [p] s' = (search tok s = (Returned p, s'))"
| "remote_serves search tok s (p # q # ps) s' =
     (case search tok s of
        (Returned p', s1) \<Rightarrow> p' = p \<and> remote_serves search (token p) s1 (q # ps) s'
      | (Raised e, s1) \<Rightarrow> False)"


section \<open>Registering a model\<close>

text \<open>Python's \<^verbatim>\<open>'...'\<close> around a value inside an f-string.\<close>

definition quoted :: "string \<Rightarrow> string" where
  "quoted s = [CHR 0x27] @ s @ [CHR 0x27]"

text \<open>
  Lines 146 to 158: the registered model is created; an \<^verbatim>\<open>MlflowException\<close> whose
  code is one of the two "already exists" codes is answered with a message, any other
  exception leaves the function.
\<close>

definition already_exists :: "string \<Rightarrow> bool" where
  "already_exists code = (code = RESOURCE_ALREADY_EXISTS \<or> code = ALREADY_EXISTS)"

definition registered_message :: "string \<Rightarrow> string" where
  "registered_message nm = ''Successfully registered model '' @ quoted nm @ ''.''"

definition already_exists_message :: "'s externals \<Rightarrow> string \<Rightarrow> string" where
  "already_exists_message env nm =
     ''Registered model '' @ py_repr env nm @
     '' already exists. Creating a new version of this model...''"

definition create_or_reuse_registered_model ::
  "'s externals \<Rightarrow> 's mlflow_client \<Rightarrow> string \<Rightarrow> ('s, unit) prog" where
  "create_or_reuse_registered_model env client nm =
     catch
       (seq (perform (CreateRegisteredModel nm) (create_registered_model client nm))
          (\<lambda>create_model_response.
             emit (Eprint (registered_message (registered_name create_model_response)))))
       (\<lambda>e. case e of
               MlflowException code msg \<Rightarrow>
                 if already_exists code
                 then emit (Eprint (already_exists_message env nm))
                 else raise e
             | OtherException cls msg \<Rightarrow> raise e)"

text \<open>
  \<^verbatim>\<open>{m_o.model_id: m_o.step for m_o in run.outputs.model_outputs}\<close>: a later output
  of the same model replaces an earlier one.
\<close>

definition model_id_to_step :: "logged_model_output list \<Rightarrow> (string \<rightharpoonup> int)" where
  "model_id_to_step outs = fold (\<lambda>m_o d. d(output_model_id m_o \<mapsto> step m_o)) outs Map.empty"

text \<open>
  The key function of the \<^verbatim>\<open>max\<close> call; a missing key is a \<^verbatim>\<open>KeyError\<close>,
  whose text is the \<^verbatim>\<open>repr\<close> of the key.
\<close>

definition step_of ::
  "'s externals \<Rightarrow> (string \<rightharpoonup> int) \<Rightarrow> logged_model \<Rightarrow> int outcome" where
  "step_of env d lm =
     (case d (model_id lm) of
        None \<Rightarrow> Raised (OtherException ''KeyError'' (py_repr env (model_id lm)))
      | Some s \<Rightarrow> Returned s)"

text \<open>
  Python's \<^verbatim>\<open>max(xs, key=f)\<close>: the keys are computed from left to right, and a later
  element replaces the best one only when its key is strictly greater.
\<close>

fun max_from :: "('a \<Rightarrow> int outcome) \<Rightarrow> 'a \<Rightarrow> int \<Rightarrow> 'a list \<Rightarrow> 'a outcome" where
  "max_from key best best_key [] = Returned best"
| "max_from key best best_key (x # xs) =
     (case key x of
        Raised e \<Rightarrow> Raised e
      | Returned k \<Rightarrow>
          if best_key < k then max_from key x k xs else max_from key best best_key xs)"

definition py_max :: "('a \<Rightarrow> int outcome) \<Rightarrow> 'a list \<Rightarrow> 'a outcome" where
  "py_max key xs =
     (case xs of
        [] \<Rightarrow> Raised (OtherException ''ValueError'' ''max() arg is an empty sequence'')
      | x # xs' \<Rightarrow>
          (case key x of
             Raised e \<Rightarrow> Raised e
           | Returned k \<Rightarrow> max_from key x k xs'))"

definition multiple_models_message :: "string \<Rightarrow> string" where
  "multiple_models_message rid =
     ''Multiple logged models found for run '' @ rid @
     ''. Cannot determine which model to register. '' @
     ''Please use `models:/<model_id>` instead.''"

definition not_found_message :: "string \<Rightarrow> string \<Rightarrow> string" where
  "not_found_message artifact_path rid =
     ''Unable to find a logged_model with artifact_path '' @ artifact_path @
     '' under run '' @ rid"

definition no_artifacts_warning :: "'s externals \<Rightarrow> string \<Rightarrow> string \<Rightarrow> string \<Rightarrow> string" where
  "no_artifacts_warning env rid artifact_path source =
     ''Run with id '' @ rid @ '' has no artifacts at artifact path '' @
     py_repr env artifact_path @ '', registering model based on '' @ source @ '' instead''"

text \<open>Lines 183 to 193: the model id among the logged models found, which are not empty.\<close>

definition choose_model_id ::
  "'s externals \<Rightarrow> string \<Rightarrow> run \<Rightarrow> logged_model list \<Rightarrow> string outcome" where
  "choose_model_id env rid rn logged_models =
     (if length logged_models > 1 then
        (case outputs rn of
           None \<Rightarrow>
             Raised (invalid_parameter_value (multiple_models_message rid))
         | Some outs \<Rightarrow>
             (case py_max (step_of env (model_id_to_step (model_outputs outs))) logged_models of
                Raised e \<Rightarrow> Raised e
              | Returned lm \<Rightarrow> Returned (model_id lm)))
      else
        (case logged_models of
           [] \<Rightarrow> Raised (OtherException ''IndexError'' ''list index out of range'')
         | lm # rest \<Rightarrow> Returned (model_id lm)))"

text \<open>
  Lines 163 to 198, for a \<^verbatim>\<open>runs:/\<close> URI: the result is \<^verbatim>\<open>run_id\<close>,
  \<^verbatim>\<open>model_id\<close> and \<^verbatim>\<open>source\<close>. Line 181 passes
  \<^verbatim>\<open>ErrorCode.Name(NOT_FOUND)\<close>, which is a string, as the \<^verbatim>\<open>error_code\<close>
  of the exception.
\<close>

definition resolve_runs_uri ::
  "'s externals \<Rightarrow> 's mlflow_client \<Rightarrow> string \<Rightarrow>
   ('s, string option \<times> string option \<times> string) prog" where
  "resolve_runs_uri env client model_uri =
     seq (of_outcome (parse_runs_uri env model_uri)) (\<lambda>(rid, artifact_path).
     seq (perform (NewRunsArtifactRepository model_uri) (new_runs_artifact_repo env model_uri))
       (\<lambda>runs_artifact_repo.
     seq (perform (ListRunArtifacts model_uri) (list_run_artifacts env model_uri))
       (\<lambda>artifacts.
     if MLMODEL_FILE_NAME env \<in> set (map path artifacts) then
       seq (perform (GetUnderlyingUri model_uri) (get_underlying_uri env model_uri))
         (\<lambda>source. succeed (Some rid, None, source))
     else
       seq (perform (GetRun rid) (get_run client rid)) (\<lambda>rn.
       seq (get_logged_models_from_run client rn artifact_path) (\<lambda>logged_models.
       if logged_models = [] then
         raise (new_MlflowException (not_found_message artifact_path rid) (StrObject NOT_FOUND))
       else
         seq (of_outcome (choose_model_id env rid rn logged_models)) (\<lambda>mid.
         seq (emit (LoggerWarning
                (no_artifacts_warning env rid artifact_path (''models:/'' @ mid))))
           (\<lambda>u. succeed (Some rid, Some mid, ''models:/'' @ mid))))))))"

definition resolve_source ::
  "'s externals \<Rightarrow> 's mlflow_client \<Rightarrow> string \<Rightarrow>
   ('s, string option \<times> string option \<times> string) prog" where
  "resolve_source env client model_uri =
     (if is_runs_uri env model_uri then resolve_runs_uri env client model_uri
      else succeed (None, None, model_uri))"

definition DATABRICKS_MODEL_SERVING :: string where
  "DATABRICKS_MODEL_SERVING = ''databricks_model_serving''"

text \<open>Lines 203 to 209.\<close>

definition pack_env ::
  "'s externals \<Rightarrow> 's mlflow_client \<Rightarrow> string \<Rightarrow> string option \<Rightarrow> string option \<Rightarrow>
   ('s, unit) prog" where
  "pack_env env client model_uri mid env_pack =
     (if env_pack = Some DATABRICKS_MODEL_SERVING then
        seq (emit (Eprint ''Packing environment for Databricks Model Serving...'')) (\<lambda>u.
        seq (perform (PackEnvEnter model_uri) (pack_env_enter env model_uri))
          (\<lambda>artifacts_path_with_env.
             with_exit
               (perform (LogModelArtifacts mid artifacts_path_with_env)
                  (log_model_artifacts client mid artifacts_path_with_env))
               (perform PackEnvExit (pack_env_exit env))))
      else succeed ())"

text \<open>Lines 220 to 240: the message about the version created.\<close>

definition link_emoji :: string where
  "link_emoji = [CHR 0xF0, CHR 0x9F, CHR 0x94, CHR 0x97, CHR '' '']"

definition created_message :: "model_version \<Rightarrow> string" where
  "created_message create_version_response =
     ''Created version '' @ quoted (str_version (version create_version_response)) @
     '' of model '' @ quoted (version_name create_version_response)"

definition print_created_message ::
  "'s externals \<Rightarrow> model_version \<Rightarrow> ('s, unit) prog" where
  "print_created_message env create_version_response =
     (let plain = emit (Eprint (created_message create_version_response @ ''.''))
      in
      seq (perform GetRegistryUri (get_registry_uri env)) (\<lambda>registry_uri.
      seq (perform PrintModelUrlsOnCreation (print_model_urls_on_creation env)) (\<lambda>enabled.
      if enabled \<and> is_databricks_unity_catalog_uri env registry_uri then
        seq (perform GetWorkspaceUrl (get_workspace_url env)) (\<lambda>url.
          case url of
            None \<Rightarrow> plain
          | Some u \<Rightarrow>
              if u = [] then plain
              else
                seq (perform GetWorkspaceId (get_workspace_id env)) (\<lambda>workspace_id.
                  emit (Eprint (link_emoji @ created_message create_version_response @ '': '' @
                    construct_databricks_uc_registered_model_url env u
                      (version_name create_version_response)
                      (version create_version_response) workspace_id))))
      else plain)))"

text \<open>
  Lines 242 to 256: the new entry is appended to the list stored under the tag
  \<^verbatim>\<open>MLFLOW_MODEL_VERSIONS\<close> of the logged model. The entry holds the name and the
  version as the response has them.
\<close>

definition version_entry :: "model_version \<Rightarrow> json" where
  "version_entry create_version_response =
     JObject [(''name'', JStr (version_name create_version_response)),
              (''version'', json_of_version (version create_version_response))]"

text \<open>
  \<^verbatim>\<open>json.loads(existing_value) + new_value\<close>, where \<^verbatim>\<open>new_value\<close> is a list:
  two lists are concatenated, and any other left operand is a \<^verbatim>\<open>TypeError\<close>.
\<close>

definition type_name :: "json \<Rightarrow> string" where
  "type_name j =
     (case j of
        JNull \<Rightarrow> ''NoneType''
      | JBool b \<Rightarrow> ''bool''
      | JInt i \<Rightarrow> ''int''
      | JStr s \<Rightarrow> ''str''
      | JList xs \<Rightarrow> ''list''
      | JObject kvs \<Rightarrow> ''dict'')"

definition plus_list :: "json \<Rightarrow> json list \<Rightarrow> json outcome" where
  "plus_list j ys =
     (case j of
        JList xs \<Rightarrow> Returned (JList (xs @ ys))
      | JStr s \<Rightarrow>
          Raised (OtherException ''TypeError''
            (''can only concatenate str (not '' @ [CHR 0x22] @ ''list'' @ [CHR 0x22] @
             '') to str''))
      | _ \<Rightarrow>
          Raised (OtherException ''TypeError''
            (''unsupported operand type(s) for +: '' @ quoted (type_name j) @ '' and '' @
             quoted ''list'')))"

definition new_versions_value :: "'s externals \<Rightarrow> logged_model \<Rightarrow> json \<Rightarrow> json outcome" where
  "new_versions_value env model entry =
     (if truthy (tags model (MLFLOW_MODEL_VERSIONS env)) then
        (case tags model (MLFLOW_MODEL_VERSIONS env) of
           None \<Rightarrow> Returned (JList [entry])
         | Some existing_value \<Rightarrow>
             (case json_loads env existing_value of
                Raised e \<Rightarrow> Raised e
              | Returned loaded \<Rightarrow> plus_list loaded [entry]))
      else Returned (JList [entry]))"

definition record_model_version ::
  "'s externals \<Rightarrow> 's mlflow_client \<Rightarrow> string option \<Rightarrow> model_version \<Rightarrow> ('s, unit) prog" where
  "record_model_version env client mid create_version_response =
     (case mid of
        None \<Rightarrow> succeed ()
      | Some m \<Rightarrow>
          if m = [] then succeed ()
          else
            seq (perform (GetLoggedModel m) (get_logged_model client m)) (\<lambda>model.
            seq (of_outcome (new_versions_value env model (version_entry create_version_response)))
              (\<lambda>new_value.
                 perform (SetLoggedModelTags m
                            [(MLFLOW_MODEL_VERSIONS env, json_dumps env new_value)])
                   (set_logged_model_tags client m
                      [(MLFLOW_MODEL_VERSIONS env, json_dumps env new_value)]))))"

text \<open>Lines 258 to 274.\<close>

definition staging_message :: "model_version \<Rightarrow> string" where
  "staging_message create_version_response =
     ''Staging model '' @ version_name create_version_response @
     '' version '' @ str_version (version create_version_response) @
     '' for Databricks Model Serving...''"

definition stage_failed_message :: "exn \<Rightarrow> string" where
  "stage_failed_message e =
     ''Failed to stage model for Databricks Model Serving: '' @ exn_str e @
     ''. The model was registered successfully and is available for '' @
     ''serving, but may take longer to deploy.''"

definition stage_model ::
  "'s externals \<Rightarrow> model_version \<Rightarrow> string option \<Rightarrow> ('s, unit) prog" where
  "stage_model env create_version_response env_pack =
     (if env_pack = Some DATABRICKS_MODEL_SERVING then
        seq (emit (Eprint (staging_message create_version_response)))
          (\<lambda>u. catch
                  (perform (StageModel (version_name create_version_response)
                              (version create_version_response))
                     (stage_model_for_databricks_model_serving env
                        (version_name create_version_response)
                        (version create_version_response)))
                  (\<lambda>e. emit (Eprint (stage_failed_message e))))
      else succeed ())"

text \<open>The arguments of \<^verbatim>\<open>_register_model\<close> besides the URI and the name.\<close>

record register_options =
  await_registration_for :: "int option"
  opt_tags :: "(string \<times> string) list option"
  local_model_path :: "string option"
  env_pack :: "string option"

text \<open>
  Line 200: \<^verbatim>\<open>_parse_model_id_if_present(model_uri) if not model_id else model_id\<close>.
  The function is defined outside the module and may call the registry.
\<close>

definition model_id_or_parsed ::
  "'s externals \<Rightarrow> string \<Rightarrow> string option \<Rightarrow> ('s, string option) prog" where
  "model_id_or_parsed env model_uri mid0 =
     (if \<not> truthy mid0 then
        perform (ParseModelIdIfPresent model_uri) (parse_model_id_if_present env model_uri)
      else succeed mid0)"

text \<open>Lines 200 to 276: what follows once the source is resolved.\<close>

text \<open>The keyword arguments of the call \<^verbatim>\<open>client._create_model_version\<close>.\<close>

definition version_args ::
  "string \<Rightarrow> register_options \<Rightarrow> string option \<Rightarrow> string option \<Rightarrow> string \<Rightarrow>
   create_version_args" where
  "version_args nm opts rid mid source =
     \<lparr>arg_name = nm, arg_source = source, arg_run_id = rid, arg_tags = opt_tags opts,
      arg_await_creation_for = await_registration_for opts,
      arg_local_model_path = local_model_path opts, arg_model_id = mid\<rparr>"

definition create_version_and_finish ::
  "'s externals \<Rightarrow> 's mlflow_client \<Rightarrow> string \<Rightarrow> string \<Rightarrow> register_options \<Rightarrow>
   string option \<times> string option \<times> string \<Rightarrow> ('s, model_version) prog" where
  "create_version_and_finish env client model_uri nm opts resolved =
     (case resolved of (rid, mid0, source) \<Rightarrow>
        seq (model_id_or_parsed env model_uri mid0) (\<lambda>mid.
        seq (pack_env env client model_uri mid (env_pack opts)) (\<lambda>u.
        seq (perform (CreateModelVersion (version_args nm opts rid mid source))
               (create_model_version client (version_args nm opts rid mid source)))
          (\<lambda>create_version_response.
        seq (print_created_message env create_version_response) (\<lambda>u.
        seq (record_model_version env client mid create_version_response) (\<lambda>u.
        seq (stage_model env create_version_response (env_pack opts)) (\<lambda>u.
        succeed create_version_response)))))))"

definition register_model_impl ::
  "'s externals \<Rightarrow> 's mlflow_client \<Rightarrow> string \<Rightarrow> string \<Rightarrow> register_options \<Rightarrow>
   ('s, model_version) prog" where
  "register_model_impl env client model_uri nm opts =
     seq (create_or_reuse_registered_model env client nm) (\<lambda>u.
     seq (resolve_source env client model_uri) (\<lambda>resolved.
     create_version_and_finish env client model_uri nm opts resolved))"

text \<open>
  \<^verbatim>\<open>register_model\<close> passes its arguments on, with no \<^verbatim>\<open>local_model_path\<close>.
\<close>

definition register_model ::
  "'s externals \<Rightarrow> 's mlflow_client \<Rightarrow> string \<Rightarrow> string \<Rightarrow> int option \<Rightarrow>
   (string \<times> string) list option \<Rightarrow> string option \<Rightarrow> ('s, model_version) prog" where
  "register_model env client model_uri nm await tgs pack =
     register_model_impl env client model_uri nm
       \<lparr>await_registration_for = await, opt_tags = tgs, local_model_path = None,
        env_pack = pack\<rparr>"

section \<open>Loading a prompt\<close>

text \<open>\<^verbatim>\<open>_load_prompt_not_cached\<close>: a URI is loaded without the version argument.\<close>

definition load_prompt_not_cached ::
  "'s externals \<Rightarrow> 's mlflow_client \<Rightarrow> string \<Rightarrow> version_arg option \<Rightarrow> bool \<Rightarrow>
   ('s, prompt_version option) prog" where
  "load_prompt_not_cached env client name_or_uri ver allow_missing =
     seq (of_outcome (parse_prompt_name_or_uri env name_or_uri ver))
       (\<lambda>(parsed_name_or_uri, parsed_version).
          if prefix ''prompts:/'' parsed_name_or_uri then
            perform (ClientLoadPrompt parsed_name_or_uri None allow_missing)
              (client_load_prompt client parsed_name_or_uri None allow_missing)
          else
            perform (ClientLoadPrompt parsed_name_or_uri parsed_version allow_missing)
              (client_load_prompt client parsed_name_or_uri parsed_version allow_missing))"

text \<open>
  \<^verbatim>\<open>functools.lru_cache(maxsize)\<close> around a function, for one key: with a size of
  zero or less nothing is stored; a stored result is returned without a call and becomes
  the most recent entry; a result that the function returns is stored in front and the
  oldest entries beyond the size are dropped; an exception stores nothing.
\<close>

definition lru_cache ::
  "int \<Rightarrow> cache_key \<Rightarrow> ('s, prompt_version option) prog \<Rightarrow> ('s, prompt_version option) prog"
  where
  "lru_cache maxsize key f w =
     (if maxsize \<le> 0 then f w
      else
        (case map_of (prompt_cache w) key of
           Some result \<Rightarrow>
             Some (Returned result,
                   w\<lparr>prompt_cache :=
                       (key, result) # filter (\<lambda>kv. fst kv \<noteq> key) (prompt_cache w)\<rparr>)
         | None \<Rightarrow>
             (case f w of
                None \<Rightarrow> None
              | Some (Raised e, w') \<Rightarrow> Some (Raised e, w')
              | Some (Returned result, w') \<Rightarrow>
                  Some (Returned result,
                        w'\<lparr>prompt_cache :=
                             take (nat maxsize) ((key, result) # prompt_cache w')\<rparr>))))"

definition load_prompt_cached ::
  "'s externals \<Rightarrow> 's mlflow_client \<Rightarrow> string \<Rightarrow> version_arg option \<Rightarrow> bool \<Rightarrow>
   ('s, prompt_version option) prog" where
  "load_prompt_cached env client name_or_uri ver allow_missing =
     lru_cache (MLFLOW_PROMPT_CACHE_MAX_SIZE env) (name_or_uri, ver, allow_missing)
       (load_prompt_not_cached env client name_or_uri ver allow_missing)"

text \<open>
  Lines 693 to 713: the cached lookup, and the lookup without the cache. In
  \<^verbatim>\<open>a or b\<close> the second operand is evaluated when the first is \<^verbatim>\<open>None\<close>; a
  \<^verbatim>\<open>PromptVersion\<close> counts as true.
\<close>

definition lookup_prompt ::
  "'s externals \<Rightarrow> 's mlflow_client \<Rightarrow> string \<Rightarrow> version_arg option \<Rightarrow> bool \<Rightarrow>
   ('s, prompt_version option) prog" where
  "lookup_prompt env client name_or_uri ver allow_missing =
     (if CHR ''@'' \<in> set name_or_uri then
        load_prompt_not_cached env client name_or_uri ver allow_missing
      else
        seq (load_prompt_cached env client name_or_uri ver allow_missing) (\<lambda>cached.
          case cached of
            Some prompt \<Rightarrow> succeed (Some prompt)
          | None \<Rightarrow> load_prompt_not_cached env client name_or_uri ver allow_missing))"




text \<open>Lines 723 to 726.\<close>

definition prompt_uri :: "prompt_version \<Rightarrow> string" where
  "prompt_uri prompt =
     ''prompts:/'' @ prompt_name prompt @ ''/'' @ str_int (prompt_version_number prompt)"

definition link_to_active_run ::
  "'s externals \<Rightarrow> 's mlflow_client \<Rightarrow> prompt_version \<Rightarrow> ('s, unit) prog" where
  "link_to_active_run env client prompt =
     seq (perform ActiveRun (active_run env)) (\<lambda>active.
       case active of
         None \<Rightarrow> succeed ()
       | Some rn \<Rightarrow>
           perform (LinkPromptVersionToRun (run_id (info rn)) (prompt_uri prompt))
             (link_prompt_version_to_run client (run_id (info rn)) (prompt_uri prompt)))"

text \<open>
  Lines 728 to 756. \<^verbatim>\<open>link_thread.start()\<close> is the event \<open>ThreadStart\<close>, with the
  name of the thread and its target: the call returns once the thread is started, or
  raises when it cannot be, and the caller goes on without the thread, whose target runs
  on its own.
\<close>

definition start_link_thread ::
  "'s externals \<Rightarrow> prompt_version \<Rightarrow> bool \<Rightarrow> string option \<Rightarrow> ('s, unit) prog" where
  "start_link_thread env prompt link_to_model mid0 =
     (if link_to_model then
        seq (if truthy mid0 then succeed mid0
             else perform GetActiveModelId (get_active_model_id env)) (\<lambda>mid.
          case mid of
            None \<Rightarrow> succeed ()
          | Some m \<Rightarrow>
              seq (perform Uuid4 (uuid4_hex env)) (\<lambda>hex.
                perform (ThreadStart (''link_prompt_thread-'' @ take 8 hex)
                           (LinkPromptAsync prompt m))
                  (thread_start env (''link_prompt_thread-'' @ take 8 hex))))
      else succeed ())"

text \<open>Lines 758 to 762.\<close>

definition register_in_trace :: "'s externals \<Rightarrow> prompt_version \<Rightarrow> ('s, unit) prog" where
  "register_in_trace env prompt =
     seq (perform GetActiveTraceId (get_active_trace_id env)) (\<lambda>trace_id.
       case trace_id of
         None \<Rightarrow> succeed ()
       | Some t \<Rightarrow>
           if t = [] then succeed ()
           else perform (RegisterPrompt t prompt) (register_prompt env t prompt))"

definition PROMPT_API_MIGRATION_MSG :: "string \<Rightarrow> string" where
  "PROMPT_API_MIGRATION_MSG func_name =
     ''The `mlflow.'' @ func_name @ ''` API is moved to the `mlflow.genai` namespace. '' @
     ''Please use `mlflow.genai.'' @ func_name @ ''` instead. '' @
     ''The original API will be removed in the future release.''"

text \<open>Lines 714 to 764: what follows the lookup.\<close>

definition after_lookup ::
  "'s externals \<Rightarrow> 's mlflow_client \<Rightarrow> bool \<Rightarrow> string option \<Rightarrow> prompt_version option \<Rightarrow>
   ('s, prompt_version option) prog" where
  "after_lookup env client link_to_model mid found =
     (case found of
        None \<Rightarrow> succeed None
      | Some prompt \<Rightarrow>
          seq (link_to_active_run env client prompt) (\<lambda>u.
          seq (start_link_thread env prompt link_to_model mid) (\<lambda>u.
          seq (register_in_trace env prompt) (\<lambda>u.
          succeed (Some prompt)))))"

text \<open>
  The body of \<^verbatim>\<open>load_prompt\<close>, the function that the decorator wraps. A warning
  that \<^verbatim>\<open>warnings.warn\<close> is set to turn into an error is an exception of that call.
\<close>

definition load_prompt_wrapped ::
  "'s externals \<Rightarrow> 's mlflow_client \<Rightarrow> string \<Rightarrow> version_arg option \<Rightarrow> bool \<Rightarrow> bool \<Rightarrow>
   string option \<Rightarrow> ('s, prompt_version option) prog" where
  "load_prompt_wrapped env client name_or_uri ver allow_missing link_to_model mid =
     seq (perform (WarningsWarn (PROMPT_API_MIGRATION_MSG ''load_prompt''))
            (warnings_warn env (PROMPT_API_MIGRATION_MSG ''load_prompt''))) (\<lambda>u.
     seq (lookup_prompt env client name_or_uri ver allow_missing)
       (after_lookup env client link_to_model mid))"

text \<open>
  \<^verbatim>\<open>load_prompt\<close> as the module exports it: the check of the decorator
  \<^verbatim>\<open>require_prompt_registry\<close>, which is defined outside the module, and then the body.
\<close>

definition load_prompt ::
  "'s externals \<Rightarrow> 's mlflow_client \<Rightarrow> string \<Rightarrow> version_arg option \<Rightarrow> bool \<Rightarrow> bool \<Rightarrow>
   string option \<Rightarrow> ('s, prompt_version option) prog" where
  "load_prompt env client name_or_uri ver allow_missing link_to_model mid =
     seq (perform RequirePromptRegistry (require_prompt_registry env)) (\<lambda>u.
       load_prompt_wrapped env client name_or_uri ver allow_missing link_to_model mid)"

section \<open>Searching with pagination\<close>







section \<open>Properties of programs\<close>

text \<open>
  Whenever the program returns or raises, it has only added events to the trace, and each
  event it added satisfies \<open>P\<close>.
\<close>

definition emits :: "(event \<Rightarrow> bool) \<Rightarrow> ('s, 'a) prog \<Rightarrow> bool" where
  "emits P m =
     (\<forall>w r w'. m w = Some (r, w') \<longrightarrow> (\<exists>evs. trace w' = trace w @ evs \<and> list_all P evs))"

text \<open>A call of \<^verbatim>\<open>set_logged_model_tags\<close> passes a dictionary with the one key.\<close>

fun writes_only :: "string \<Rightarrow> event \<Rightarrow> bool" where
  "writes_only key (SetLoggedModelTags m kvs) = (map fst kvs = [key])"
| "writes_only key ev = True"

text \<open>Whenever the program returns or raises, the cache of prompts is as it was.\<close>

definition keeps_cache :: "('s, 'a) prog \<Rightarrow> bool" where
  "keeps_cache m = (\<forall>w r w'. m w = Some (r, w') \<longrightarrow> prompt_cache w' = prompt_cache w)"

text \<open>
  The program neither reads nor writes the cache of prompts: run with another cache, it
  does the same and leaves that cache.
\<close>

definition cache_free :: "('s, 'a) prog \<Rightarrow> bool" where
  "cache_free m =
     (\<forall>w c. m (w\<lparr>prompt_cache := c\<rparr>) =
            map_option (\<lambda>(r, w'). (r, w'\<lparr>prompt_cache := c\<rparr>)) (m w))"

text \<open>The events of \<^verbatim>\<open>load_prompt\<close> up to the end of the lookup.\<close>

fun lookup_event :: "event \<Rightarrow> bool" where
  "lookup_event RequirePromptRegistry = True"
| "lookup_event (WarningsWarn msg) = True"
| "lookup_event (ClientLoadPrompt nm ver allow_missing) = True"
| "lookup_event ev = False"


section \<open>Test doubles\<close>

text \<open>
  Concrete services for the examples: the state is the number of calls made so far, and a
  scripted method answers its \<open>n\<close>-th call with the \<open>n\<close>-th response of its script.
\<close>

definition unexpected :: "(nat, 'a) remote" where
  "unexpected n = (Raised (OtherException ''AssertionError'' ''unexpected call''), Suc n)"

definition scripted :: "'a outcome list \<Rightarrow> (nat, 'a) remote" where
  "scripted responses n =
     (if n < length responses then responses ! n
      else Raised (OtherException ''StopIteration'' []), Suc n)"

definition answer :: "'a \<Rightarrow> (nat, 'a) remote" where
  "answer x n = (Returned x, Suc n)"

definition failing :: "exn \<Rightarrow> (nat, 'a) remote" where
  "failing e n = (Raised e, Suc n)"

definition no_client :: "nat mlflow_client" where
  "no_client =
     \<lparr>create_registered_model = (\<lambda>nm. unexpected),
      get_run = (\<lambda>rid. unexpected),
      search_logged_models = (\<lambda>ids flt tok. unexpected),
      log_model_artifacts = (\<lambda>mid p. unexpected),
      create_model_version = (\<lambda>args. unexpected),
      get_logged_model = (\<lambda>mid. unexpected),
      set_logged_model_tags = (\<lambda>mid ts. unexpected),
      client_search_registered_models = (\<lambda>n flt ord tok. unexpected),
      client_search_model_versions = (\<lambda>n flt ord tok. unexpected),
      client_load_prompt = (\<lambda>nm v am. unexpected),
      link_prompt_version_to_run = (\<lambda>rid uri. unexpected),
      link_prompt_version_to_model = (\<lambda>nm v mid. unexpected)\<rparr>"

definition start :: "nat world" where
  "start = \<lparr>services = 0, trace = [], prompt_cache = []\<rparr>"

definition demo_run :: run where
  "demo_run = \<lparr>info = \<lparr>run_id = ''r1'', experiment_id = ''e1''\<rparr>, outputs = None\<rparr>"

definition demo_model :: "string \<Rightarrow> string \<Rightarrow> logged_model" where
  "demo_model mid rid =
     \<lparr>model_id = mid, model_name = ''clf'', source_run_id = Some rid, tags = Map.empty\<rparr>"

definition demo_page1 :: "logged_model paged_list" where
  "demo_page1 =
     \<lparr>items = [demo_model ''m-1'' ''r1'', demo_model ''m-2'' ''r2''], token = Some ''x''\<rparr>"

definition demo_page2 :: "logged_model paged_list" where
  "demo_page2 = \<lparr>items = [demo_model ''m-3'' ''r1''], token = None\<rparr>"

definition two_page_client :: "nat mlflow_client" where
  "two_page_client =
     no_client\<lparr>search_logged_models :=
       (\<lambda>ids flt tok. scripted [Returned demo_page1, Returned demo_page2])\<rparr>"

definition timeout_error :: exn where
  "timeout_error = OtherException ''TimeoutError'' ''read timed out''"

definition broken_second_page_client :: "nat mlflow_client" where
  "broken_second_page_client =
     no_client\<lparr>search_logged_models :=
       (\<lambda>ids flt tok. scripted [Returned demo_page1, Raised timeout_error])\<rparr>"

text \<open>
  \<^verbatim>\<open>json.dumps\<close> with its default separators, for strings in which no character
  needs an escape.
\<close>

fun join :: "string \<Rightarrow> string list \<Rightarrow> string" where
  "join sep [] = []"
| "join sep [x] = x"
| "join sep (x # y # ys) = x @ sep @ join sep (y # ys)"

definition in_quotes :: "string \<Rightarrow> string" where
  "in_quotes s = [CHR 0x22] @ s @ [CHR 0x22]"

primrec dumps :: "json \<Rightarrow> string" where
  "dumps JNull = ''null''"
| "dumps (JBool b) = (if b then ''true'' else ''false'')"
| "dumps (JInt i) = str_int i"
| "dumps (JStr s) = in_quotes s"
| "dumps (JList xs) = ''['' @ join '', '' (map dumps xs) @ '']''"
| "dumps (JObject kvs) =
     ''{'' @ join '', '' (map (\<lambda>kv. in_quotes (fst kv) @ '': '' @ snd kv)
                          (map (map_prod id dumps) kvs)) @ ''}''"

definition no_env :: "nat externals" where
  "no_env =
     \<lparr>is_runs_uri = prefix ''runs:/'',
      parse_runs_uri =
        (\<lambda>uri. if uri = ''runs:/r1/clf'' then Returned (''r1'', ''clf'')
               else Raised (MlflowException INVALID_PARAMETER_VALUE ''Not a proper runs:/ URI'')),
      new_runs_artifact_repo = (\<lambda>uri. answer ()),
      list_run_artifacts = (\<lambda>uri. answer []),
      get_underlying_uri = (\<lambda>uri. unexpected),
      parse_model_id_if_present = (\<lambda>uri. answer None),
      pack_env_enter = (\<lambda>uri. unexpected),
      pack_env_exit = unexpected,
      get_registry_uri = answer ''sqlite:///mlflow.db'',
      print_model_urls_on_creation = answer True,
      is_databricks_unity_catalog_uri = (\<lambda>uri. False),
      get_workspace_url = unexpected,
      get_workspace_id = unexpected,
      construct_databricks_uc_registered_model_url = (\<lambda>url nm v wid. url),
      stage_model_for_databricks_model_serving = (\<lambda>nm v. unexpected),
      json_loads =
        (\<lambda>s. if s = ''[]'' then Returned (JList [])
             else Raised (OtherException ''JSONDecodeError'' s)),
      json_dumps = dumps,
      py_repr = quoted,
      MLMODEL_FILE_NAME = ''MLmodel'',
      MLFLOW_MODEL_VERSIONS = ''mlflow.modelVersions'',
      SEARCH_REGISTERED_MODEL_MAX_RESULTS_DEFAULT = 100,
      SEARCH_MODEL_VERSION_MAX_RESULTS_DEFAULT = 10000,
      MLFLOW_PROMPT_CACHE_MAX_SIZE = 128,
      require_prompt_registry = answer (),
      warnings_warn = (\<lambda>msg. answer ()),
      parse_prompt_name_or_uri = (\<lambda>nm v. Returned (nm, v)),
      active_run = answer None,
      get_active_model_id = answer None,
      uuid4_hex = answer ''0123456789abcdef0123456789abcdef'',
      thread_start = (\<lambda>nm. answer ()),
      get_active_trace_id = answer None,
      register_prompt = (\<lambda>t p. answer ())\<rparr>"

definition existing_name_client :: "nat mlflow_client" where
  "existing_name_client =
     no_client\<lparr>
       create_registered_model :=
         (\<lambda>nm. failing (MlflowException RESOURCE_ALREADY_EXISTS ''Registered Model exists'')),
       create_model_version :=
         (\<lambda>args. answer \<lparr>version_name = arg_name args, version = VersionStr ''2''\<rparr>)\<rparr>"

definition other_run_page :: "logged_model paged_list" where
  "other_run_page = \<lparr>items = [demo_model ''m-2'' ''r2''], token = None\<rparr>"

definition other_run_client :: "nat mlflow_client" where
  "other_run_client =
     no_client\<lparr>
       create_registered_model := (\<lambda>nm. answer \<lparr>registered_name = nm\<rparr>),
       get_run := (\<lambda>rid. answer demo_run),
       search_logged_models := (\<lambda>ids flt tok. answer other_run_page)\<rparr>"

definition run_with_outputs :: run where
  "run_with_outputs =
     \<lparr>info = \<lparr>run_id = ''r1'', experiment_id = ''e1''\<rparr>,
      outputs = Some \<lparr>model_outputs =
        [\<lparr>output_model_id = ''m-1'', step = 1\<rparr>,
         \<lparr>output_model_id = ''m-3'', step = 5\<rparr>,
         \<lparr>output_model_id = ''m-1'', step = 3\<rparr>]\<rparr>\<rparr>"

definition two_models_page :: "logged_model paged_list" where
  "two_models_page =
     \<lparr>items = [demo_model ''m-1'' ''r1'', demo_model ''m-3'' ''r1'', demo_model ''m-2'' ''r2''],
      token = None\<rparr>"

definition two_models_client :: "nat mlflow_client" where
  "two_models_client =
     no_client\<lparr>
       create_registered_model := (\<lambda>nm. answer \<lparr>registered_name = nm\<rparr>),
       get_run := (\<lambda>rid. answer run_with_outputs),
       search_logged_models := (\<lambda>ids flt tok. answer two_models_page),
       create_model_version :=
         (\<lambda>args. answer \<lparr>version_name = arg_name args, version = VersionStr ''1''\<rparr>),
       get_logged_model := (\<lambda>mid. answer (demo_model mid ''r1'')),
       set_logged_model_tags := (\<lambda>mid ts. answer ())\<rparr>"

definition previous_entry :: json where
  "previous_entry = JObject [(''name'', JStr ''clf''), (''version'', JStr ''1'')]"

definition models_env :: "nat externals" where
  "models_env =
     no_env\<lparr>
       parse_model_id_if_present :=
         (\<lambda>uri. answer (if uri = ''models:/m-7'' then Some ''m-7'' else None)),
       json_loads :=
         (\<lambda>s. if s = dumps (JList [previous_entry]) then Returned (JList [previous_entry])
              else Raised (OtherException ''JSONDecodeError'' s))\<rparr>"

definition tagged_model :: logged_model where
  "tagged_model =
     \<lparr>model_id = ''m-7'', model_name = ''clf'', source_run_id = None,
      tags = [''mlflow.modelVersions'' \<mapsto> dumps (JList [previous_entry]),
              ''owner'' \<mapsto> ''ana'']\<rparr>"

definition tagged_model_client :: "nat mlflow_client" where
  "tagged_model_client =
     no_client\<lparr>
       create_registered_model := (\<lambda>nm. answer \<lparr>registered_name = nm\<rparr>),
       create_model_version :=
         (\<lambda>args. answer \<lparr>version_name = arg_name args, version = VersionInt 2\<rparr>),
       get_logged_model := (\<lambda>mid. answer tagged_model),
       set_logged_model_tags := (\<lambda>mid ts. answer ())\<rparr>"


text \<open>A run whose outputs name one of the two logged models that the search finds.\<close>

definition run_one_output :: run where
  "run_one_output =
     \<lparr>info = \<lparr>run_id = ''r1'', experiment_id = ''e1''\<rparr>,
      outputs = Some \<lparr>model_outputs = [\<lparr>output_model_id = ''m-1'', step = 1\<rparr>]\<rparr>\<rparr>"

definition one_output_client :: "nat mlflow_client" where
  "one_output_client = two_models_client\<lparr>get_run := (\<lambda>rid. answer run_one_output)\<rparr>"

text \<open>A run whose outputs name a model at two steps, the larger one first.\<close>

definition run_logged_twice :: run where
  "run_logged_twice =
     \<lparr>info = \<lparr>run_id = ''r1'', experiment_id = ''e1''\<rparr>,
      outputs = Some \<lparr>model_outputs =
        [\<lparr>output_model_id = ''m-1'', step = 7\<rparr>,
         \<lparr>output_model_id = ''m-3'', step = 5\<rparr>,
         \<lparr>output_model_id = ''m-1'', step = 1\<rparr>]\<rparr>\<rparr>"

definition logged_twice_client :: "nat mlflow_client" where
  "logged_twice_client = two_models_client\<lparr>get_run := (\<lambda>rid. answer run_logged_twice)\<rparr>"
definition demo_prompt :: prompt_version where
  "demo_prompt = \<lparr>prompt_name = ''greeting'', prompt_version_number = 2, template = ''Hello''\<rparr>"


definition missing_prompt_client :: "nat mlflow_client" where
  "missing_prompt_client =
     no_client\<lparr>client_load_prompt := (\<lambda>nm ver allow_missing. answer None)\<rparr>"

text \<open>
  A registry in which the prompt appears between two lookups: the call made as the third
  call of the services finds nothing, the call made as the fourth finds the prompt.
\<close>

definition late_prompt_client :: "nat mlflow_client" where
  "late_prompt_client =
     no_client\<lparr>
       client_load_prompt :=
         (\<lambda>nm ver allow_missing.
            scripted [Returned None, Returned None, Returned None, Returned (Some demo_prompt)])\<rparr>"

definition alias_prompt_client :: "nat mlflow_client" where
  "alias_prompt_client =
     no_client\<lparr>client_load_prompt := (\<lambda>nm ver allow_missing. answer (Some demo_prompt))\<rparr>"






section \<open>Rules for programs\<close>

lemma seq_succeed [simp]: "seq (succeed x) k w = k x w"
  by (simp add: seq_def succeed_def)

lemma seq_raise [simp]: "seq (raise e) k w = Some (Raised e, w)"
  by (simp add: seq_def raise_def)

lemma seq_emit [simp]: "seq (emit ev) k w = k () (w\<lparr>trace := trace w @ [ev]\<rparr>)"
  by (simp add: seq_def emit_def)

lemma seq_of_outcome [simp]:
  "seq (of_outcome (Returned x)) k w = k x w"
  "seq (of_outcome (Raised e)) k w = Some (Raised e, w)"
  by (simp_all add: seq_def of_outcome_def)

lemma seq_perform_returned:
  "f (services w) = (Returned x, s') \<Longrightarrow>
   seq (perform ev f) k w = k x (w\<lparr>services := s', trace := trace w @ [ev]\<rparr>)"
  by (simp add: seq_def perform_def call_def)

lemma seq_perform_raised:
  "f (services w) = (Raised e, s') \<Longrightarrow>
   seq (perform ev f) k w = Some (Raised e, w\<lparr>services := s', trace := trace w @ [ev]\<rparr>)"
  by (simp add: seq_def perform_def call_def)

lemma perform_eq:
  "f (services w) = (r, s') \<Longrightarrow>
   perform ev f w = Some (r, w\<lparr>services := s', trace := trace w @ [ev]\<rparr>)"
  by (simp add: perform_def call_def)

lemma seq_returned: "m w = Some (Returned x, w') \<Longrightarrow> seq m k w = k x w'"
  by (simp add: seq_def)

lemma seq_raised: "m w = Some (Raised e, w') \<Longrightarrow> seq m k w = Some (Raised e, w')"
  by (simp add: seq_def)

lemma seq_cong_run: "m w = m' w' \<Longrightarrow> seq m k w = seq m' k w'"
  by (simp add: seq_def)

lemma seq_SomeD:
  "seq m k w = Some (r, w') \<Longrightarrow>
   (\<exists>e. m w = Some (Raised e, w') \<and> r = Raised e) \<or>
   (\<exists>x w1. m w = Some (Returned x, w1) \<and> k x w1 = Some (r, w'))"
  by (auto simp: seq_def split: option.splits prod.splits outcome.splits)

lemma emitsI:
  "(\<And>w r w'. m w = Some (r, w') \<Longrightarrow> \<exists>evs. trace w' = trace w @ evs \<and> list_all P evs) \<Longrightarrow>
   emits P m"
  by (simp add: emits_def)

lemma emitsD:
  "emits P m \<Longrightarrow> m w = Some (r, w') \<Longrightarrow> \<exists>evs. trace w' = trace w @ evs \<and> list_all P evs"
  by (simp add: emits_def)

lemma emits_succeed [intro!]: "emits P (succeed x)"
  by (simp add: emits_def succeed_def)

lemma emits_raise [intro!]: "emits P (raise e)"
  by (simp add: emits_def raise_def)

lemma emits_of_outcome [intro!]: "emits P (of_outcome r)"
  by (simp add: emits_def of_outcome_def)

lemma emits_emit: "P ev \<Longrightarrow> emits P (emit ev)"
  by (auto simp: emits_def emit_def)

lemma emits_perform: "P ev \<Longrightarrow> emits P (perform ev f)"
  by (auto simp: emits_def perform_def call_def split: prod.splits)

lemma emits_seq:
  assumes "emits P m" and "\<And>x. emits P (k x)"
  shows "emits P (seq m k)"
proof (rule emitsI)
  fix w r w'
  assume "seq m k w = Some (r, w')"
  then consider e where "m w = Some (Raised e, w')"
    | x w1 where "m w = Some (Returned x, w1)" "k x w1 = Some (r, w')"
    using seq_SomeD by blast
  then show "\<exists>evs. trace w' = trace w @ evs \<and> list_all P evs"
  proof cases
    case 1
    then show ?thesis using emitsD [OF assms(1)] by blast
  next
    case 2
    from emitsD [OF assms(1) 2(1)] obtain evs1 where
      "trace w1 = trace w @ evs1" "list_all P evs1" by blast
    moreover from emitsD [OF assms(2) 2(2)] obtain evs2 where
      "trace w' = trace w1 @ evs2" "list_all P evs2" by blast
    ultimately have "trace w' = trace w @ (evs1 @ evs2) \<and> list_all P (evs1 @ evs2)"
      by simp
    then show ?thesis by blast
  qed
qed

lemma emits_catch:
  assumes "emits P m" and "\<And>e. emits P (h e)"
  shows "emits P (catch m h)"
proof (rule emitsI)
  fix w r w'
  assume c: "catch m h w = Some (r, w')"
  then consider x where "m w = Some (Returned x, w')"
    | e w1 where "m w = Some (Raised e, w1)" "h e w1 = Some (r, w')"
    by (auto simp: catch_def split: option.splits prod.splits outcome.splits)
  then show "\<exists>evs. trace w' = trace w @ evs \<and> list_all P evs"
  proof cases
    case 1
    then show ?thesis using emitsD [OF assms(1)] by blast
  next
    case 2
    from emitsD [OF assms(1) 2(1)] obtain evs1 where
      "trace w1 = trace w @ evs1" "list_all P evs1" by blast
    moreover from emitsD [OF assms(2) 2(2)] obtain evs2 where
      "trace w' = trace w1 @ evs2" "list_all P evs2" by blast
    ultimately have "trace w' = trace w @ (evs1 @ evs2) \<and> list_all P (evs1 @ evs2)"
      by simp
    then show ?thesis by blast
  qed
qed

lemma emits_with_exit:
  assumes "emits P m" and "emits P c"
  shows "emits P (with_exit m c)"
proof (rule emitsI)
  fix w r w'
  assume "with_exit m c w = Some (r, w')"
  then obtain r1 w1 r2 where m: "m w = Some (r1, w1)" and c: "c w1 = Some (r2, w')"
    by (auto simp: with_exit_def split: option.splits prod.splits outcome.splits)
  from emitsD [OF assms(1) m] obtain evs1 where
    "trace w1 = trace w @ evs1" "list_all P evs1" by blast
  moreover from emitsD [OF assms(2) c] obtain evs2 where
    "trace w' = trace w1 @ evs2" "list_all P evs2" by blast
  ultimately have "trace w' = trace w @ (evs1 @ evs2) \<and> list_all P (evs1 @ evs2)"
    by simp
  then show "\<exists>evs. trace w' = trace w @ evs \<and> list_all P evs" by blast
qed

lemma logged_models_loop_emits:
  assumes P: "\<And>ids flt tok. P (SearchLoggedModels ids flt tok)"
    and run: "logged_models_loop client source_run nm acc tok w = Some y"
  shows "\<exists>evs. trace (snd y) = trace w @ evs \<and> list_all P evs"
  using run
proof (induct rule: logged_models_loop.raw_induct [rotated 1, consumes 1])
  case (1 loop client source_run nm acc tok w y)
  let ?ev = "SearchLoggedModels [experiment_id (info source_run)] (name_filter nm) tok"
  obtain r s1 where f: "search_logged_models client [experiment_id (info source_run)]
      (name_filter nm) tok (services w) = (r, s1)"
    by fastforce
  let ?w1 = "w\<lparr>services := s1, trace := trace w @ [?ev]\<rparr>"
  show ?case
  proof (cases r)
    case (Raised e)
    with 1(2) f have "y = (Raised e, ?w1)" by (simp add: call_def)
    then show ?thesis using P by simp
  next
    case (Returned page)
    show ?thesis
    proof (cases "truthy (token page)")
      case False
      with 1(2) f Returned have "snd y = ?w1" by (auto simp: call_def Let_def)
      then show ?thesis using P by simp
    next
      case True
      with 1(2) f Returned have step:
        "loop client source_run nm (acc @ filter (from_run source_run) (items page))
           (token page) ?w1 = Some y"
        by (simp add: call_def Let_def)
      from 1(1) [OF step] obtain evs where
        "trace (snd y) = trace ?w1 @ evs" "list_all P evs" by blast
      then have "trace (snd y) = trace w @ (?ev # evs) \<and> list_all P (?ev # evs)"
        using P by simp
      then show ?thesis by blast
    qed
  qed
qed

lemma emits_get_logged_models_from_run:
  "(\<And>ids flt tok. P (SearchLoggedModels ids flt tok)) \<Longrightarrow>
   emits P (get_logged_models_from_run client source_run nm)"
  by (rule emitsI, unfold get_logged_models_from_run_def)
     (drule logged_models_loop_emits [rotated], auto)

lemma emits_if: "emits P a \<Longrightarrow> emits P b \<Longrightarrow> emits P (if c then a else b)"
  by simp

lemma emits_case_option:
  "emits P a \<Longrightarrow> (\<And>x. emits P (b x)) \<Longrightarrow> emits P (case v of None \<Rightarrow> a | Some x \<Rightarrow> b x)"
  by (cases v) simp_all

lemma emits_case_prod:
  "(\<And>x y. emits P (f x y)) \<Longrightarrow> emits P (case v of (x, y) \<Rightarrow> f x y)"
  by (cases v) simp

lemma emits_case_exn:
  "(\<And>c m. emits P (f c m)) \<Longrightarrow> (\<And>c m. emits P (g c m)) \<Longrightarrow>
   emits P (case e of MlflowException c m \<Rightarrow> f c m | OtherException c m \<Rightarrow> g c m)"
  by (cases e) simp_all

lemmas emits_rules =
  emits_seq emits_catch emits_with_exit emits_if emits_case_option emits_case_prod
  emits_case_exn emits_succeed emits_raise emits_of_outcome

lemma emits_create_or_reuse:
  "P (CreateRegisteredModel nm) \<Longrightarrow> (\<And>s. P (Eprint s)) \<Longrightarrow>
   emits P (create_or_reuse_registered_model env client nm)"
  unfolding create_or_reuse_registered_model_def
  by (intro emits_rules emits_perform emits_emit) simp_all

lemma emits_print_created_message:
  "P GetRegistryUri \<Longrightarrow> P PrintModelUrlsOnCreation \<Longrightarrow> P GetWorkspaceUrl \<Longrightarrow>
   P GetWorkspaceId \<Longrightarrow> (\<And>s. P (Eprint s)) \<Longrightarrow>
   emits P (print_created_message env mv)"
  unfolding print_created_message_def Let_def
  by (intro emits_rules emits_perform emits_emit) simp_all

lemma emits_record_model_version:
  "(\<And>m. P (GetLoggedModel m)) \<Longrightarrow>
   (\<And>m v. P (SetLoggedModelTags m [(MLFLOW_MODEL_VERSIONS env, v)])) \<Longrightarrow>
   emits P (record_model_version env client mid mv)"
  unfolding record_model_version_def
  by (intro emits_rules emits_perform emits_emit) simp_all

lemma emits_stage_model:
  "(\<And>n v. P (StageModel n v)) \<Longrightarrow> (\<And>s. P (Eprint s)) \<Longrightarrow>
   emits P (stage_model env mv pack)"
  unfolding stage_model_def
  by (intro emits_rules emits_perform emits_emit) simp_all

lemma emits_pack_env:
  "(\<And>u. P (PackEnvEnter u)) \<Longrightarrow> P PackEnvExit \<Longrightarrow> (\<And>m p. P (LogModelArtifacts m p)) \<Longrightarrow>
   (\<And>s. P (Eprint s)) \<Longrightarrow>
   emits P (pack_env env client model_uri mid pack)"
  unfolding pack_env_def
  by (intro emits_rules emits_perform emits_emit) simp_all

lemma emits_resolve_source:
  "(\<And>u. P (NewRunsArtifactRepository u)) \<Longrightarrow> (\<And>u. P (ListRunArtifacts u)) \<Longrightarrow>
   (\<And>u. P (GetUnderlyingUri u)) \<Longrightarrow> (\<And>r. P (GetRun r)) \<Longrightarrow>
   (\<And>ids flt tok. P (SearchLoggedModels ids flt tok)) \<Longrightarrow> (\<And>s. P (LoggerWarning s)) \<Longrightarrow>
   emits P (resolve_source env client model_uri)"
  unfolding resolve_source_def resolve_runs_uri_def
  by (intro emits_rules emits_perform emits_emit emits_get_logged_models_from_run) simp_all


lemma create_or_reuse_raised:
  assumes "create_registered_model client nm (services w) = (Raised (MlflowException code msg), s1)"
  shows "create_or_reuse_registered_model env client nm w =
    (if already_exists code
     then Some (Returned (),
            w\<lparr>services := s1,
              trace := trace w @
                [CreateRegisteredModel nm, Eprint (already_exists_message env nm)]\<rparr>)
     else Some (Raised (MlflowException code msg),
            w\<lparr>services := s1, trace := trace w @ [CreateRegisteredModel nm]\<rparr>))"
  using assms
  by (simp add: create_or_reuse_registered_model_def catch_def seq_perform_raised emit_def
      raise_def)

lemma create_or_reuse_returned:
  assumes "create_registered_model client nm (services w) = (Returned rm, s1)"
  shows "create_or_reuse_registered_model env client nm w =
    Some (Returned (),
      w\<lparr>services := s1,
        trace := trace w @
          [CreateRegisteredModel nm, Eprint (registered_message (registered_name rm))]\<rparr>)"
  using assms
  by (simp add: create_or_reuse_registered_model_def catch_def seq_perform_returned emit_def)

lemma seq_ReturnedD:
  "seq m k w = Some (Returned y, w') \<Longrightarrow>
   \<exists>x w1. m w = Some (Returned x, w1) \<and> k x w1 = Some (Returned y, w')"
  by (auto simp: seq_def split: option.splits prod.splits outcome.splits)

lemma perform_SomeD:
  "perform ev f w = Some (r, w') \<Longrightarrow>
   \<exists>s'. f (services w) = (r, s') \<and> w' = w\<lparr>services := s', trace := trace w @ [ev]\<rparr>"
  by (auto simp: perform_def call_def split: prod.splits)

lemma emits_model_id_or_parsed:
  "(\<And>u. P (ParseModelIdIfPresent u)) \<Longrightarrow> emits P (model_id_or_parsed env model_uri mid0)"
  unfolding model_id_or_parsed_def
  by (intro emits_rules emits_perform) simp_all

lemma model_id_or_parsed_truthy:
  "model_id_or_parsed env model_uri mid0 w = Some (Returned mid, w') \<Longrightarrow> truthy mid0 \<Longrightarrow>
   mid = mid0 \<and> w' = w"
  by (simp add: model_id_or_parsed_def succeed_def)

text \<open>A version that \<^verbatim>\<open>_register_model\<close> returns was created with the arguments it built.\<close>

lemma create_version_and_finish_returned:
  assumes "create_version_and_finish env client model_uri nm opts (rid, mid0, source) w =
             Some (Returned mv, w')"
  shows "\<exists>evs mid. trace w' = trace w @ evs \<and> (truthy mid0 \<longrightarrow> mid = mid0) \<and>
           CreateModelVersion (version_args nm opts rid mid source) \<in> set evs"
proof -
  let ?rest = "\<lambda>mid create_version_response.
         seq (print_created_message env create_version_response) (\<lambda>u.
         seq (record_model_version env client mid create_version_response) (\<lambda>u.
         seq (stage_model env create_version_response (env_pack opts)) (\<lambda>u.
         succeed create_version_response)))"
  let ?create = "\<lambda>mid. perform (CreateModelVersion (version_args nm opts rid mid source))
        (create_model_version client (version_args nm opts rid mid source))"
  from assms have run:
    "seq (model_id_or_parsed env model_uri mid0) (\<lambda>mid.
       seq (pack_env env client model_uri mid (env_pack opts)) (\<lambda>u.
       seq (?create mid) (?rest mid))) w = Some (Returned mv, w')"
    by (simp add: create_version_and_finish_def)
  from seq_ReturnedD [OF this] obtain mid w0 where
    i: "model_id_or_parsed env model_uri mid0 w = Some (Returned mid, w0)"
    and run1: "seq (pack_env env client model_uri mid (env_pack opts)) (\<lambda>u.
       seq (?create mid) (?rest mid)) w0 = Some (Returned mv, w')"
    by auto
  from seq_ReturnedD [OF run1] obtain w1 where
    p: "pack_env env client model_uri mid (env_pack opts) w0 = Some (Returned (), w1)"
    and c: "seq (?create mid) (?rest mid) w1 = Some (Returned mv, w')"
    by auto
  from seq_ReturnedD [OF c] obtain mv' w2 where
    c1: "?create mid w1 = Some (Returned mv', w2)"
    and r: "?rest mid mv' w2 = Some (Returned mv, w')"
    by auto
  have "emits (\<lambda>ev. True) (model_id_or_parsed env model_uri mid0)"
    by (rule emits_model_id_or_parsed) simp
  from emitsD [OF this i] obtain evs0 where e0: "trace w0 = trace w @ evs0"
    by blast
  have "emits (\<lambda>ev. True) (pack_env env client model_uri mid (env_pack opts))"
    by (rule emits_pack_env) simp_all
  from emitsD [OF this p] obtain evs1 where e1: "trace w1 = trace w0 @ evs1"
    by blast
  from perform_SomeD [OF c1]
  have e2: "trace w2 = trace w1 @ [CreateModelVersion (version_args nm opts rid mid source)]"
    by auto
  have "emits (\<lambda>ev. True) (?rest mid mv')"
    by (intro emits_rules emits_print_created_message emits_record_model_version
        emits_stage_model) simp_all
  from emitsD [OF this r] obtain evs3 where e3: "trace w' = trace w2 @ evs3"
    by blast
  have "trace w' =
      trace w @ (evs0 @ evs1 @ [CreateModelVersion (version_args nm opts rid mid source)] @ evs3)"
    using e0 e1 e2 e3 by simp
  moreover have "CreateModelVersion (version_args nm opts rid mid source) \<in>
      set (evs0 @ evs1 @ [CreateModelVersion (version_args nm opts rid mid source)] @ evs3)"
    by simp
  moreover have "truthy mid0 \<longrightarrow> mid = mid0"
    using model_id_or_parsed_truthy [OF i] by simp
  ultimately show ?thesis by blast
qed

text \<open>The steps of \<^verbatim>\<open>_register_model\<close> for a run without the model file, up to the search.\<close>

lemma resolve_runs_uri_search:
  assumes "parse_runs_uri env model_uri = Returned (rid, artifact_path)"
    and "new_runs_artifact_repo env model_uri (services w1) = (Returned (), s2)"
    and "list_run_artifacts env model_uri s2 = (Returned artifacts, s3)"
    and "MLMODEL_FILE_NAME env \<notin> set (map path artifacts)"
    and "get_run client rid s3 = (Returned rn, s4)"
  shows "resolve_runs_uri env client model_uri w1 =
     seq (get_logged_models_from_run client rn artifact_path) (\<lambda>logged_models.
       if logged_models = [] then
         raise (new_MlflowException (not_found_message artifact_path rid) (StrObject NOT_FOUND))
       else
         seq (of_outcome (choose_model_id env rid rn logged_models)) (\<lambda>mid.
         seq (emit (LoggerWarning
                (no_artifacts_warning env rid artifact_path (''models:/'' @ mid))))
           (\<lambda>u. succeed (Some rid, Some mid, ''models:/'' @ mid))))
       (w1\<lparr>services := s4,
           trace := trace w1 @
             [NewRunsArtifactRepository model_uri, ListRunArtifacts model_uri, GetRun rid]\<rparr>)"
  using assms
  by (simp add: resolve_runs_uri_def seq_perform_returned)

lemma no_env_simps [simp]:
  "is_runs_uri no_env = prefix ''runs:/''"
  "parse_runs_uri no_env ''runs:/r1/clf'' = Returned (''r1'', ''clf'')"
  "new_runs_artifact_repo no_env = (\<lambda>uri. answer ())"
  "list_run_artifacts no_env = (\<lambda>uri. answer [])"
  "parse_model_id_if_present no_env = (\<lambda>uri. answer None)"
  "json_dumps no_env = dumps"
  "warnings_warn no_env = (\<lambda>msg. answer ())"
  "get_registry_uri no_env = answer ''sqlite:///mlflow.db''"
  "print_model_urls_on_creation no_env = answer True"
  "is_databricks_unity_catalog_uri no_env = (\<lambda>uri. False)"
  "py_repr no_env = quoted"
  "MLMODEL_FILE_NAME no_env = ''MLmodel''"
  "MLFLOW_MODEL_VERSIONS no_env = ''mlflow.modelVersions''"
  "json_loads no_env ''[]'' = Returned (JList [])"
  "SEARCH_REGISTERED_MODEL_MAX_RESULTS_DEFAULT no_env = 100"
  "SEARCH_MODEL_VERSION_MAX_RESULTS_DEFAULT no_env = 10000"
  "MLFLOW_PROMPT_CACHE_MAX_SIZE no_env = 128"
  "require_prompt_registry no_env = answer ()"
  "parse_prompt_name_or_uri no_env = (\<lambda>nm v. Returned (nm, v))"
  "active_run no_env = answer None"
  "get_active_model_id no_env = answer None"
  "uuid4_hex no_env = answer ''0123456789abcdef0123456789abcdef''"
  "thread_start no_env = (\<lambda>nm. answer ())"
  "get_active_trace_id no_env = answer None"
  "register_prompt no_env = (\<lambda>t p. answer ())"
  by (simp_all add: no_env_def)

lemma seq_perform_answer:
  "seq (perform ev (answer x)) k w =
     k x (w\<lparr>services := Suc (services w), trace := trace w @ [ev]\<rparr>)"
  by (simp add: seq_perform_returned answer_def)

lemma seq_perform_failing:
  "seq (perform ev (failing e)) k w =
     Some (Raised e, w\<lparr>services := Suc (services w), trace := trace w @ [ev]\<rparr>)"
  by (simp add: seq_perform_raised failing_def)

lemma perform_answer:
  "perform ev (answer x) w =
     Some (Returned x, w\<lparr>services := Suc (services w), trace := trace w @ [ev]\<rparr>)"
  by (simp add: perform_eq answer_def)

lemma perform_failing:
  "perform ev (failing e) w =
     Some (Raised e, w\<lparr>services := Suc (services w), trace := trace w @ [ev]\<rparr>)"
  by (simp add: perform_eq failing_def)

lemma seq_assoc: "seq (seq m k1) k2 = seq m (\<lambda>x. seq (k1 x) k2)"
  by (rule ext) (simp add: seq_def split: option.splits prod.splits outcome.splits)

lemma seq_succeed_fun: "seq (succeed x) k = k x"
  by (rule ext) simp

lemma emit_eq: "emit ev w = Some (Returned (), w\<lparr>trace := trace w @ [ev]\<rparr>)"
  by (simp add: emit_def)

lemma succeed_eq: "succeed x w = Some (Returned x, w)"
  by (simp add: succeed_def)

lemma raise_eq: "raise e w = Some (Raised e, w)"
  by (simp add: raise_def)

lemmas eval_simps =
  seq_perform_answer seq_perform_failing perform_answer perform_failing seq_assoc emit_eq
  succeed_eq raise_eq

section \<open>Rules for the prompt functions\<close>

lemma keeps_cacheI:
  "(\<And>w r w'. m w = Some (r, w') \<Longrightarrow> prompt_cache w' = prompt_cache w) \<Longrightarrow> keeps_cache m"
  by (simp add: keeps_cache_def)

lemma keeps_cacheD: "keeps_cache m \<Longrightarrow> m w = Some (r, w') \<Longrightarrow> prompt_cache w' = prompt_cache w"
  by (simp add: keeps_cache_def)

lemma keeps_cache_succeed: "keeps_cache (succeed x)"
  by (simp add: keeps_cache_def succeed_def)

lemma keeps_cache_raise: "keeps_cache (raise e)"
  by (simp add: keeps_cache_def raise_def)

lemma keeps_cache_of_outcome: "keeps_cache (of_outcome r)"
  by (simp add: keeps_cache_def of_outcome_def)

lemma keeps_cache_emit: "keeps_cache (emit ev)"
  by (auto simp: keeps_cache_def emit_def)

lemma keeps_cache_perform: "keeps_cache (perform ev f)"
  by (auto simp: keeps_cache_def perform_def call_def split: prod.splits)

lemma keeps_cache_seq:
  assumes "keeps_cache m" and "\<And>x. keeps_cache (k x)"
  shows "keeps_cache (seq m k)"
proof (rule keeps_cacheI)
  fix w r w'
  assume "seq m k w = Some (r, w')"
  then consider e where "m w = Some (Raised e, w')"
    | x w1 where "m w = Some (Returned x, w1)" "k x w1 = Some (r, w')"
    using seq_SomeD by blast
  then show "prompt_cache w' = prompt_cache w"
  proof cases
    case 1
    then show ?thesis using keeps_cacheD [OF assms(1)] by blast
  next
    case 2
    then show ?thesis
      using keeps_cacheD [OF assms(1) 2(1)] keeps_cacheD [OF assms(2) 2(2)] by simp
  qed
qed

lemma keeps_cache_if: "keeps_cache a \<Longrightarrow> keeps_cache b \<Longrightarrow> keeps_cache (if c then a else b)"
  by simp

lemma keeps_cache_case_option:
  "keeps_cache a \<Longrightarrow> (\<And>x. keeps_cache (b x)) \<Longrightarrow>
   keeps_cache (case v of None \<Rightarrow> a | Some x \<Rightarrow> b x)"
  by (cases v) simp_all

lemma keeps_cache_case_prod:
  "(\<And>x y. keeps_cache (f x y)) \<Longrightarrow> keeps_cache (case v of (x, y) \<Rightarrow> f x y)"
  by (cases v) simp

lemmas keeps_cache_rules =
  keeps_cache_seq keeps_cache_if keeps_cache_case_option keeps_cache_case_prod
  keeps_cache_succeed keeps_cache_raise keeps_cache_of_outcome keeps_cache_emit
  keeps_cache_perform

lemma keeps_cache_load_prompt_not_cached:
  "keeps_cache (load_prompt_not_cached env client name_or_uri ver allow_missing)"
  unfolding load_prompt_not_cached_def
  by (intro keeps_cache_rules)

lemma keeps_cache_after_lookup:
  "keeps_cache (after_lookup env client link_to_model mid found)"
  unfolding after_lookup_def link_to_active_run_def start_link_thread_def register_in_trace_def
  by (intro keeps_cache_rules)

lemma cache_free_run:
  "cache_free m \<Longrightarrow>
   m (w\<lparr>prompt_cache := c\<rparr>) = map_option (\<lambda>(r, w'). (r, w'\<lparr>prompt_cache := c\<rparr>)) (m w)"
  by (simp add: cache_free_def)

lemma cache_free_succeed: "cache_free (succeed x)"
  by (simp add: cache_free_def succeed_def)

lemma cache_free_raise: "cache_free (raise e)"
  by (simp add: cache_free_def raise_def)

lemma cache_free_of_outcome: "cache_free (of_outcome r)"
  by (simp add: cache_free_def of_outcome_def)

lemma cache_free_perform: "cache_free (perform ev f)"
  by (auto simp: cache_free_def perform_def call_def split: prod.splits)

lemma cache_free_seq:
  assumes "cache_free m" and "\<And>x. cache_free (k x)"
  shows "cache_free (seq m k)"
  unfolding cache_free_def
proof (intro allI)
  fix w c
  show "seq m k (w\<lparr>prompt_cache := c\<rparr>) =
      map_option (\<lambda>(r, w'). (r, w'\<lparr>prompt_cache := c\<rparr>)) (seq m k w)"
  proof (cases "m w")
    case None
    then show ?thesis
      using cache_free_run [OF assms(1), where w = w and c = c] by (simp add: seq_def)
  next
    case (Some y)
    obtain r w1 where y: "y = (r, w1)" by (cases y) auto
    show ?thesis
    proof (cases r)
      case (Raised e)
      then show ?thesis
        using cache_free_run [OF assms(1), where w = w and c = c] Some y by (simp add: seq_def)
    next
      case (Returned x)
      then show ?thesis
        using cache_free_run [OF assms(1), where w = w and c = c] cache_free_run [OF assms(2) [of x], where w = w1 and c = c] Some y
        by (simp add: seq_def)
    qed
  qed
qed

lemma cache_free_if: "cache_free a \<Longrightarrow> cache_free b \<Longrightarrow> cache_free (if c then a else b)"
  by simp

lemma cache_free_case_option:
  "cache_free a \<Longrightarrow> (\<And>x. cache_free (b x)) \<Longrightarrow>
   cache_free (case v of None \<Rightarrow> a | Some x \<Rightarrow> b x)"
  by (cases v) simp_all

lemma cache_free_case_prod:
  "(\<And>x y. cache_free (f x y)) \<Longrightarrow> cache_free (case v of (x, y) \<Rightarrow> f x y)"
  by (cases v) simp

lemmas cache_free_rules =
  cache_free_seq cache_free_if cache_free_case_option cache_free_case_prod
  cache_free_succeed cache_free_raise cache_free_of_outcome cache_free_perform

lemma cache_free_load_prompt_not_cached:
  "cache_free (load_prompt_not_cached env client name_or_uri ver allow_missing)"
  unfolding load_prompt_not_cached_def
  by (intro cache_free_rules)

lemma cache_free_after_lookup:
  "cache_free (after_lookup env client link_to_model mid found)"
  unfolding after_lookup_def link_to_active_run_def start_link_thread_def register_in_trace_def
  by (intro cache_free_rules)

lemma emits_lru_cache:
  assumes "emits P f"
  shows "emits P (lru_cache maxsize key f)"
proof (rule emitsI)
  fix w r w'
  assume run: "lru_cache maxsize key f w = Some (r, w')"
  show "\<exists>evs. trace w' = trace w @ evs \<and> list_all P evs"
  proof (cases "0 < maxsize \<and> map_of (prompt_cache w) key \<noteq> None")
    case True
    with run have "trace w' = trace w"
      by (auto simp: lru_cache_def)
    then show ?thesis by simp
  next
    case False
    with run obtain w1 where "f w = Some (r, w1)" "trace w' = trace w1"
      by (auto simp: lru_cache_def split: if_splits option.splits prod.splits outcome.splits)
    with emitsD [OF assms] show ?thesis by metis
  qed
qed

lemma emits_load_prompt_not_cached:
  "(\<And>nm v a. P (ClientLoadPrompt nm v a)) \<Longrightarrow>
   emits P (load_prompt_not_cached env client name_or_uri ver allow_missing)"
  unfolding load_prompt_not_cached_def
  by (intro emits_rules emits_perform) simp_all

lemma emits_lookup_prompt:
  "(\<And>nm v a. P (ClientLoadPrompt nm v a)) \<Longrightarrow>
   emits P (lookup_prompt env client name_or_uri ver allow_missing)"
  unfolding lookup_prompt_def load_prompt_cached_def
  by (intro emits_rules emits_lru_cache emits_load_prompt_not_cached) simp_all

text \<open>\<^verbatim>\<open>load_prompt\<close> once the check of the decorator has passed.\<close>

lemma load_prompt_checked:
  assumes "require_prompt_registry env (services w) = (Returned (), s)"
    and "warnings_warn env (PROMPT_API_MIGRATION_MSG ''load_prompt'') s = (Returned (), s0)"
  shows "load_prompt env client name_or_uri ver allow_missing link_to_model mid w =
     seq (lookup_prompt env client name_or_uri ver allow_missing)
       (after_lookup env client link_to_model mid)
       (w\<lparr>services := s0,
          trace := trace w @
            [RequirePromptRegistry, WarningsWarn (PROMPT_API_MIGRATION_MSG ''load_prompt'')]\<rparr>)"
  unfolding load_prompt_def load_prompt_wrapped_def
  using assms(2)
  by (simp add: seq_perform_returned [where f = "require_prompt_registry env", OF assms(1)]
      seq_perform_returned
        [where f = "warnings_warn env (PROMPT_API_MIGRATION_MSG ''load_prompt'')"])

section \<open>Rules for the aggregator\<close>



section \<open>Pagination over the logged models of a run\<close>

lemma logged_models_loop_pages:
  "remote_serves (search_logged_models client [experiment_id (info source_run)] (name_filter nm))
     tok (services w) ps s' \<Longrightarrow>
   \<forall>p \<in> set (butlast ps). truthy (token p) \<Longrightarrow>
   \<not> truthy (token (last ps)) \<Longrightarrow>
   logged_models_loop client source_run nm acc tok w =
     Some (Returned (acc @ concat (map (\<lambda>p. filter (from_run source_run) (items p)) ps)),
           w\<lparr>services := s',
             trace := trace w @
               map (SearchLoggedModels [experiment_id (info source_run)] (name_filter nm))
                 (tok # map token (butlast ps))\<rparr>)"
proof (induction ps arbitrary: acc tok w rule: induct_list012)
  case 1
  then show ?case by simp
next
  case (2 p)
  then show ?case
    by (subst logged_models_loop.simps) (simp add: call_def)
next
  case (3 p q ps)
  let ?search = "search_logged_models client [experiment_id (info source_run)] (name_filter nm)"
  let ?ev = "SearchLoggedModels [experiment_id (info source_run)] (name_filter nm)"
  from "3.prems"(1) obtain s1 where
    s1: "?search tok (services w) = (Returned p, s1)"
    and rest: "remote_serves ?search (token p) s1 (q # ps) s'"
    by (auto split: prod.splits outcome.splits)
  let ?w1 = "w\<lparr>services := s1, trace := trace w @ [?ev tok]\<rparr>"
  have tp: "truthy (token p)"
    using "3.prems"(2) by simp
  have "logged_models_loop client source_run nm
          (acc @ filter (from_run source_run) (items p)) (token p) ?w1 =
        Some (Returned ((acc @ filter (from_run source_run) (items p)) @
                concat (map (\<lambda>p. filter (from_run source_run) (items p)) (q # ps))),
              ?w1\<lparr>services := s',
                trace := trace ?w1 @ map ?ev (token p # map token (butlast (q # ps)))\<rparr>)"
    by (rule "3.IH"(2)) (use rest "3.prems" in simp_all)
  then show ?case
    by (subst logged_models_loop.simps) (simp add: call_def s1 tp del: remote_serves.simps)
qed

text \<open>
  C1. Let the remote answer the calls of the loop with the pages \<open>ps\<close>, each call but the
  first carrying the token of the page before it, where every page but the last has a
  non-empty token and the last has an empty or absent one. Then
  \<^verbatim>\<open>_get_logged_models_from_run\<close> returns the items of all the pages that belong to
  the run, concatenated in the order of the pages; it has made one call per page, the
  first with no token and each later one with the token of the previous page unchanged,
  and no call after the page whose token is empty or absent.
\<close>

theorem get_logged_models_from_run_concatenates_pages:
  assumes "remote_serves
             (search_logged_models client [experiment_id (info source_run)] (name_filter nm))
             None (services w) ps s'"
    and "\<forall>p \<in> set (butlast ps). truthy (token p)"
    and "\<not> truthy (token (last ps))"
  shows "get_logged_models_from_run client source_run nm w =
     Some (Returned (concat (map (\<lambda>p. filter (from_run source_run) (items p)) ps)),
           w\<lparr>services := s',
             trace := trace w @
               map (SearchLoggedModels [experiment_id (info source_run)] (name_filter nm))
                 (None # map token (butlast ps))\<rparr>)"
  unfolding get_logged_models_from_run_def
  using logged_models_loop_pages [OF assms, of "[]"] by simp

theorem get_logged_models_from_run_concatenates_pages_witness:
  "get_logged_models_from_run two_page_client demo_run ''clf'' start =
     Some (Returned [demo_model ''m-1'' ''r1'', demo_model ''m-3'' ''r1''],
           \<lparr>services = 2,
            trace = [SearchLoggedModels [''e1''] (name_filter ''clf'') None,
                     SearchLoggedModels [''e1''] (name_filter ''clf'') (Some ''x'')],
            prompt_cache = []\<rparr>)"
  using get_logged_models_from_run_concatenates_pages
    [of two_page_client demo_run "''clf''" start "[demo_page1, demo_page2]" 2]
  by (simp add: two_page_client_def no_client_def start_def demo_run_def demo_page1_def
      demo_page2_def scripted_def truthy_def from_run_def demo_model_def)

text \<open>
  C5. If the first call of the loop returns a page with a non-empty token and the second
  call raises, \<^verbatim>\<open>_get_logged_models_from_run\<close> raises that same exception after
  those two calls: the outcome is the exception, and the items of the first page are in
  no part of it.
\<close>

theorem get_logged_models_from_run_second_call_raises:
  assumes "search_logged_models client [experiment_id (info source_run)] (name_filter nm)
             None (services w) = (Returned p, s1)"
    and "truthy (token p)"
    and "search_logged_models client [experiment_id (info source_run)] (name_filter nm)
           (token p) s1 = (Raised e, s2)"
  shows "get_logged_models_from_run client source_run nm w =
     Some (Raised e,
           w\<lparr>services := s2,
             trace := trace w @
               [SearchLoggedModels [experiment_id (info source_run)] (name_filter nm) None,
                SearchLoggedModels [experiment_id (info source_run)] (name_filter nm)
                  (token p)]\<rparr>)"
  unfolding get_logged_models_from_run_def
  by (subst logged_models_loop.simps, simp add: call_def assms,
      subst logged_models_loop.simps, simp add: call_def assms)

theorem get_logged_models_from_run_second_call_raises_witness:
  "get_logged_models_from_run broken_second_page_client demo_run ''clf'' start =
     Some (Raised timeout_error,
           \<lparr>services = 2,
            trace = [SearchLoggedModels [''e1''] (name_filter ''clf'') None,
                     SearchLoggedModels [''e1''] (name_filter ''clf'') (Some ''x'')],
            prompt_cache = []\<rparr>)"
  using get_logged_models_from_run_second_call_raises
    [of broken_second_page_client demo_run "''clf''" start demo_page1 1 timeout_error 2]
  by (simp add: broken_second_page_client_def no_client_def start_def demo_run_def
      demo_page1_def scripted_def truthy_def)

section \<open>Registering a model: the claims\<close>

text \<open>
  C3. If \<^verbatim>\<open>create_registered_model\<close> raises an \<^verbatim>\<open>MlflowException\<close>, then
  \<^verbatim>\<open>register_model\<close> does one of two things. When the error code is
  \<^verbatim>\<open>RESOURCE_ALREADY_EXISTS\<close> or \<^verbatim>\<open>ALREADY_EXISTS\<close>, the exception is answered
  with a message and the function goes on with the rest of its body, which resolves the
  source and creates the version; with any other code the same exception leaves the
  function, after that one call. And whenever \<^verbatim>\<open>register_model\<close> returns a version,
  it has called \<^verbatim>\<open>_create_model_version\<close> with the name it was given.
\<close>

theorem register_model_already_exists:
  assumes "create_registered_model client nm (services w) =
             (Raised (MlflowException code msg), s1)"
  shows "(register_model env client model_uri nm await tgs pack w =
     (if code = RESOURCE_ALREADY_EXISTS \<or> code = ALREADY_EXISTS then
        seq (resolve_source env client model_uri)
          (create_version_and_finish env client model_uri nm
             \<lparr>await_registration_for = await, opt_tags = tgs, local_model_path = None,
              env_pack = pack\<rparr>)
          (w\<lparr>services := s1,
             trace := trace w @
               [CreateRegisteredModel nm, Eprint (already_exists_message env nm)]\<rparr>)
      else
        Some (Raised (MlflowException code msg),
              w\<lparr>services := s1, trace := trace w @ [CreateRegisteredModel nm]\<rparr>)))
      \<and> (\<forall>mv w'. register_model env client model_uri nm await tgs pack w = Some (Returned mv, w')
           \<longrightarrow> (\<exists>args. arg_name args = nm \<and>
                  CreateModelVersion args \<in> set (drop (length (trace w)) (trace w'))))"
proof (intro conjI)
  let ?opts = "\<lparr>await_registration_for = await, opt_tags = tgs, local_model_path = None,
              env_pack = pack\<rparr>"
  let ?w1 = "w\<lparr>services := s1,
             trace := trace w @
               [CreateRegisteredModel nm, Eprint (already_exists_message env nm)]\<rparr>"
  show eq: "register_model env client model_uri nm await tgs pack w =
     (if code = RESOURCE_ALREADY_EXISTS \<or> code = ALREADY_EXISTS then
        seq (resolve_source env client model_uri)
          (create_version_and_finish env client model_uri nm ?opts) ?w1
      else
        Some (Raised (MlflowException code msg),
              w\<lparr>services := s1, trace := trace w @ [CreateRegisteredModel nm]\<rparr>))"
    unfolding register_model_def register_model_impl_def
    using create_or_reuse_raised [OF assms, of env]
    by (simp add: seq_returned seq_raised already_exists_def)
  show "\<forall>mv w'. register_model env client model_uri nm await tgs pack w = Some (Returned mv, w')
           \<longrightarrow> (\<exists>args. arg_name args = nm \<and>
                  CreateModelVersion args \<in> set (drop (length (trace w)) (trace w')))"
  proof (intro allI impI)
    fix mv w'
    assume ret: "register_model env client model_uri nm await tgs pack w = Some (Returned mv, w')"
    from ret eq have absorbed: "code = RESOURCE_ALREADY_EXISTS \<or> code = ALREADY_EXISTS"
      by (auto split: if_splits)
    with ret eq have "seq (resolve_source env client model_uri)
          (create_version_and_finish env client model_uri nm ?opts) ?w1 = Some (Returned mv, w')"
      by simp
    from seq_ReturnedD [OF this] obtain resolved w2 where
      r: "resolve_source env client model_uri ?w1 = Some (Returned resolved, w2)"
      and f: "create_version_and_finish env client model_uri nm ?opts resolved w2 =
        Some (Returned mv, w')"
      by auto
    have "emits (\<lambda>ev. True) (resolve_source env client model_uri)"
      by (rule emits_resolve_source) simp_all
    from emitsD [OF this r] obtain evs1 where e1: "trace w2 = trace ?w1 @ evs1"
      by blast
    obtain rid mid0 source where res: "resolved = (rid, mid0, source)"
      by (cases resolved) auto
    from create_version_and_finish_returned [OF f [unfolded res]]
    obtain evs2 mid where e2: "trace w' = trace w2 @ evs2"
      and c: "CreateModelVersion (version_args nm ?opts rid mid source) \<in> set evs2"
      by blast
    have a: "arg_name (version_args nm ?opts rid mid source) = nm"
      by (simp add: version_args_def)
    from e1 e2 have "drop (length (trace w)) (trace w') =
        [CreateRegisteredModel nm, Eprint (already_exists_message env nm)] @ evs1 @ evs2"
      by simp
    with a c show "\<exists>args. arg_name args = nm \<and>
                  CreateModelVersion args \<in> set (drop (length (trace w)) (trace w'))"
      by auto
  qed
qed

theorem register_model_already_exists_witness:
  "register_model no_env existing_name_client ''/tmp/model'' ''clf'' (Some 300) None None start =
     Some (Returned \<lparr>version_name = ''clf'', version = VersionStr ''2''\<rparr>,
           \<lparr>services = 5,
            trace =
              [CreateRegisteredModel ''clf'',
               Eprint (already_exists_message no_env ''clf''),
               ParseModelIdIfPresent ''/tmp/model'',
               CreateModelVersion
                 \<lparr>arg_name = ''clf'', arg_source = ''/tmp/model'', arg_run_id = None,
                  arg_tags = None, arg_await_creation_for = Some 300,
                  arg_local_model_path = None, arg_model_id = None\<rparr>,
               GetRegistryUri, PrintModelUrlsOnCreation,
               Eprint (created_message \<lparr>version_name = ''clf'', version = VersionStr ''2''\<rparr> @
                 ''.'')],
            prompt_cache = []\<rparr>)"
proof -
  have raised: "create_registered_model existing_name_client ''clf'' (services start) =
      (Raised (MlflowException RESOURCE_ALREADY_EXISTS ''Registered Model exists''), 1)"
    by (simp add: existing_name_client_def failing_def start_def)
  show ?thesis
    by (subst register_model_already_exists [OF raised, THEN conjunct1])
       (simp add: eval_simps existing_name_client_def start_def resolve_source_def
          create_version_and_finish_def model_id_or_parsed_def version_args_def pack_env_def
          print_created_message_def record_model_version_def stage_model_def truthy_def)
qed


text \<open>
  What the constructor does with the string that line 181 passes: \<^verbatim>\<open>ErrorCode.Name\<close>
  raises for it, and the exception carries \<^verbatim>\<open>INTERNAL_ERROR\<close>.
\<close>

lemma string_error_code:
  "new_MlflowException msg (StrObject code) = MlflowException INTERNAL_ERROR msg"
  by (simp add: new_MlflowException_def ErrorCode_Name_def)

text \<open>
  A \<^verbatim>\<open>runs:/\<close> URI of a run without the model file, when no page of the search holds a
  logged model of the run: the exception of line 178 is the outcome, and no call
  follows the search.
\<close>

lemma register_model_no_logged_model:
  assumes "is_runs_uri env model_uri"
    and "create_or_reuse_registered_model env client nm w = Some (Returned (), w1)"
    and "parse_runs_uri env model_uri = Returned (rid, artifact_path)"
    and "new_runs_artifact_repo env model_uri (services w1) = (Returned (), s2)"
    and "list_run_artifacts env model_uri s2 = (Returned artifacts, s3)"
    and "MLMODEL_FILE_NAME env \<notin> set (map path artifacts)"
    and "get_run client rid s3 = (Returned rn, s4)"
    and "remote_serves
           (search_logged_models client [experiment_id (info rn)] (name_filter artifact_path))
           None s4 ps s5"
    and "\<forall>p \<in> set (butlast ps). truthy (token p)"
    and "\<not> truthy (token (last ps))"
    and "\<forall>p \<in> set ps. \<forall>m \<in> set (items p). \<not> from_run rn m"
  shows "register_model env client model_uri nm await tgs pack w =
     Some (Raised (MlflowException INTERNAL_ERROR (not_found_message artifact_path rid)),
           w1\<lparr>services := s5,
              trace := trace w1 @
                [NewRunsArtifactRepository model_uri, ListRunArtifacts model_uri, GetRun rid] @
                map (SearchLoggedModels [experiment_id (info rn)] (name_filter artifact_path))
                  (None # map token (butlast ps))\<rparr>)"
proof -
  let ?w4 = "w1\<lparr>services := s4,
           trace := trace w1 @
             [NewRunsArtifactRepository model_uri, ListRunArtifacts model_uri, GetRun rid]\<rparr>"
  let ?w5 = "?w4\<lparr>services := s5,
            trace := trace ?w4 @
              map (SearchLoggedModels [experiment_id (info rn)] (name_filter artifact_path))
                (None # map token (butlast ps))\<rparr>"
  have none: "concat (map (\<lambda>p. filter (from_run rn) (items p)) ps) = []"
    using assms(11) by (induction ps) auto
  have "remote_serves
           (search_logged_models client [experiment_id (info rn)] (name_filter artifact_path))
           None (services ?w4) ps s5"
    using assms(8) by simp
  from logged_models_loop_pages [OF this assms(9,10), of "[]"]
  have found: "get_logged_models_from_run client rn artifact_path ?w4 = Some (Returned [], ?w5)"
    by (simp add: get_logged_models_from_run_def none)
  have "resolve_source env client model_uri w1 =
      Some (Raised (MlflowException INTERNAL_ERROR (not_found_message artifact_path rid)), ?w5)"
    unfolding resolve_source_def
    using assms(1) resolve_runs_uri_search [OF assms(3-7)]
    by (simp add: raise_def string_error_code
        seq_returned [where m = "get_logged_models_from_run client rn artifact_path", OF found])
  then show ?thesis
    unfolding register_model_def register_model_impl_def
    by (simp add: seq_raised
        seq_returned [where m = "create_or_reuse_registered_model env client nm", OF assms(2)])
qed

text \<open>
  C6. The claim is an \<^verbatim>\<open>MlflowException\<close> with the error code \<^verbatim>\<open>NOT_FOUND\<close>
  when the run of a \<^verbatim>\<open>runs:/\<close> URI has neither the model file nor a logged model
  of that name. The code raises the exception, but not with that code. For the URI
  \<^verbatim>\<open>runs:/r1/clf\<close>, a run \<^verbatim>\<open>r1\<close> whose artifacts are empty, and a search whose
  one page holds a model of another run, \<^verbatim>\<open>register_model\<close> raises an
  \<^verbatim>\<open>MlflowException\<close> whose error code is \<^verbatim>\<open>INTERNAL_ERROR\<close>, which is not
  \<^verbatim>\<open>NOT_FOUND\<close>: line 181 passes the name of the code where the constructor expects
  the code.
\<close>

theorem register_model_not_found_internal_error:
  "register_model no_env other_run_client ''runs:/r1/clf'' ''clf'' None None None start =
     Some (Raised (MlflowException INTERNAL_ERROR (not_found_message ''clf'' ''r1'')),
           \<lparr>services = 5,
            trace =
              [CreateRegisteredModel ''clf'', Eprint (registered_message ''clf''),
               NewRunsArtifactRepository ''runs:/r1/clf'', ListRunArtifacts ''runs:/r1/clf'',
               GetRun ''r1'', SearchLoggedModels [''e1''] (name_filter ''clf'') None],
            prompt_cache = []\<rparr>) \<and>
   INTERNAL_ERROR \<noteq> NOT_FOUND"
proof -
  let ?w1 = "\<lparr>services = 1,
              trace = [CreateRegisteredModel ''clf'', Eprint (registered_message ''clf'')],
              prompt_cache = []\<rparr>"
  have created: "create_or_reuse_registered_model no_env other_run_client ''clf'' start =
      Some (Returned (), ?w1)"
    by (simp add: create_or_reuse_returned [where rm = "\<lparr>registered_name = ''clf''\<rparr>" and ?s1.0 = 1]
        other_run_client_def answer_def start_def)
  have uri: "is_runs_uri no_env ''runs:/r1/clf''"
    by simp
  have parsed: "parse_runs_uri no_env ''runs:/r1/clf'' = Returned (''r1'', ''clf'')"
    by simp
  have repo: "new_runs_artifact_repo no_env ''runs:/r1/clf'' (services ?w1) = (Returned (), 2)"
    by (simp add: answer_def)
  have listed: "list_run_artifacts no_env ''runs:/r1/clf'' 2 = (Returned [], 3)"
    by (simp add: answer_def)
  have no_file: "MLMODEL_FILE_NAME no_env \<notin> set (map path [])"
    by simp
  have got: "get_run other_run_client ''r1'' 3 = (Returned demo_run, 4)"
    by (simp add: other_run_client_def answer_def)
  have served: "remote_serves
      (search_logged_models other_run_client [experiment_id (info demo_run)] (name_filter ''clf''))
      None 4 [other_run_page] 5"
    by (simp add: other_run_client_def answer_def)
  have tokens: "\<forall>p \<in> set (butlast [other_run_page]). truthy (token p)"
    by simp
  have last: "\<not> truthy (token (last [other_run_page]))"
    by (simp add: other_run_page_def truthy_def)
  have others: "\<forall>p \<in> set [other_run_page]. \<forall>m \<in> set (items p). \<not> from_run demo_run m"
    by (simp add: other_run_page_def from_run_def demo_model_def demo_run_def)
  have codes: "INTERNAL_ERROR \<noteq> NOT_FOUND"
    by (simp add: INTERNAL_ERROR_def NOT_FOUND_def)
  from register_model_no_logged_model
    [OF uri created parsed repo listed no_file got served tokens last others, of None None None]
    codes
  show ?thesis
    by (simp add: demo_run_def)
qed
text \<open>
  The first steps of \<^verbatim>\<open>register_model\<close> for the URI \<^verbatim>\<open>runs:/r1/clf\<close>, with the
  example services whose search finds two logged models of the run \<^verbatim>\<open>r1\<close>: what is
  left is the choice among the two and the creation of the version.
\<close>

lemma two_models_found:
  assumes "search_logged_models client = (\<lambda>ids flt tok. answer two_models_page)"
    and "info rn = \<lparr>run_id = ''r1'', experiment_id = ''e1''\<rparr>"
  shows "get_logged_models_from_run client rn ''clf'' w =
     Some (Returned [demo_model ''m-1'' ''r1'', demo_model ''m-3'' ''r1''],
           w\<lparr>services := Suc (services w),
             trace := trace w @ [SearchLoggedModels [''e1''] (name_filter ''clf'') None]\<rparr>)"
  unfolding get_logged_models_from_run_def
  by (subst logged_models_loop.simps)
     (simp add: assms call_def answer_def two_models_page_def truthy_def from_run_def
        demo_model_def)

lemma register_two_models:
  assumes "create_registered_model client = (\<lambda>nm. answer \<lparr>registered_name = nm\<rparr>)"
    and "get_run client = (\<lambda>rid. answer rn)"
    and "search_logged_models client = (\<lambda>ids flt tok. answer two_models_page)"
    and "info rn = \<lparr>run_id = ''r1'', experiment_id = ''e1''\<rparr>"
  shows "register_model no_env client ''runs:/r1/clf'' ''clf'' None None None start =
     seq (of_outcome
            (choose_model_id no_env ''r1'' rn
               [demo_model ''m-1'' ''r1'', demo_model ''m-3'' ''r1'']))
       (\<lambda>mid.
          seq (emit (LoggerWarning (no_artifacts_warning no_env ''r1'' ''clf'' (''models:/'' @ mid))))
            (\<lambda>u. create_version_and_finish no_env client ''runs:/r1/clf'' ''clf''
                   \<lparr>await_registration_for = None, opt_tags = None, local_model_path = None,
                    env_pack = None\<rparr>
                   (Some ''r1'', Some mid, ''models:/'' @ mid)))
       \<lparr>services = 5,
        trace =
          [CreateRegisteredModel ''clf'', Eprint (registered_message ''clf''),
           NewRunsArtifactRepository ''runs:/r1/clf'', ListRunArtifacts ''runs:/r1/clf'',
           GetRun ''r1'', SearchLoggedModels [''e1''] (name_filter ''clf'') None],
        prompt_cache = []\<rparr>"
proof -
  let ?w1 = "\<lparr>services = 1,
              trace = [CreateRegisteredModel ''clf'', Eprint (registered_message ''clf'')],
              prompt_cache = []\<rparr>"
  let ?w4 = "\<lparr>services = 4,
              trace = [CreateRegisteredModel ''clf'', Eprint (registered_message ''clf''),
                NewRunsArtifactRepository ''runs:/r1/clf'', ListRunArtifacts ''runs:/r1/clf'',
                GetRun ''r1''],
              prompt_cache = []\<rparr>"
  have created: "create_or_reuse_registered_model no_env client ''clf'' start =
      Some (Returned (), ?w1)"
    by (simp add: create_or_reuse_returned [where rm = "\<lparr>registered_name = ''clf''\<rparr>" and ?s1.0 = 1]
        assms(1) answer_def start_def)
  have parsed: "parse_runs_uri no_env ''runs:/r1/clf'' = Returned (''r1'', ''clf'')"
    by simp
  have repo: "new_runs_artifact_repo no_env ''runs:/r1/clf'' (services ?w1) = (Returned (), 2)"
    by (simp add: answer_def)
  have listed: "list_run_artifacts no_env ''runs:/r1/clf'' 2 = (Returned [], 3)"
    by (simp add: answer_def)
  have no_file: "MLMODEL_FILE_NAME no_env \<notin> set (map path [])"
    by simp
  have got: "get_run client ''r1'' 3 = (Returned rn, 4)"
    by (simp add: assms(2) answer_def)
  have "resolve_source no_env client ''runs:/r1/clf'' ?w1 =
      resolve_runs_uri no_env client ''runs:/r1/clf'' ?w1"
    by (simp add: resolve_source_def)
  also have "\<dots> =
      seq (get_logged_models_from_run client rn ''clf'') (\<lambda>logged_models.
       if logged_models = [] then
         raise (new_MlflowException (not_found_message ''clf'' ''r1'') (StrObject NOT_FOUND))
       else
         seq (of_outcome (choose_model_id no_env ''r1'' rn logged_models)) (\<lambda>mid.
         seq (emit (LoggerWarning
                (no_artifacts_warning no_env ''r1'' ''clf'' (''models:/'' @ mid))))
           (\<lambda>u. succeed (Some ''r1'', Some mid, ''models:/'' @ mid)))) ?w4"
    using resolve_runs_uri_search [OF parsed repo listed no_file got] by simp
  also have "\<dots> =
      seq (of_outcome
            (choose_model_id no_env ''r1'' rn
               [demo_model ''m-1'' ''r1'', demo_model ''m-3'' ''r1'']))
        (\<lambda>mid.
         seq (emit (LoggerWarning
                (no_artifacts_warning no_env ''r1'' ''clf'' (''models:/'' @ mid))))
           (\<lambda>u. succeed (Some ''r1'', Some mid, ''models:/'' @ mid)))
        (?w4\<lparr>services := Suc (services ?w4),
             trace := trace ?w4 @ [SearchLoggedModels [''e1''] (name_filter ''clf'') None]\<rparr>)"
    by (simp add: seq_returned [where m = "get_logged_models_from_run client rn ''clf''",
          OF two_models_found [OF assms(3,4)]])
  finally have resolved: "resolve_source no_env client ''runs:/r1/clf'' ?w1 =
      seq (of_outcome
            (choose_model_id no_env ''r1'' rn
               [demo_model ''m-1'' ''r1'', demo_model ''m-3'' ''r1'']))
        (\<lambda>mid.
         seq (emit (LoggerWarning
                (no_artifacts_warning no_env ''r1'' ''clf'' (''models:/'' @ mid))))
           (\<lambda>u. succeed (Some ''r1'', Some mid, ''models:/'' @ mid)))
        (?w4\<lparr>services := Suc (services ?w4),
             trace := trace ?w4 @ [SearchLoggedModels [''e1''] (name_filter ''clf'') None]\<rparr>)" .
  have "register_model no_env client ''runs:/r1/clf'' ''clf'' None None None start =
      seq (resolve_source no_env client ''runs:/r1/clf'')
        (create_version_and_finish no_env client ''runs:/r1/clf'' ''clf''
           \<lparr>await_registration_for = None, opt_tags = None, local_model_path = None,
            env_pack = None\<rparr>) ?w1"
    unfolding register_model_def register_model_impl_def
    by (simp add:
        seq_returned [where m = "create_or_reuse_registered_model no_env client ''clf''",
          OF created])
  also have "\<dots> =
      seq (seq (of_outcome
            (choose_model_id no_env ''r1'' rn
               [demo_model ''m-1'' ''r1'', demo_model ''m-3'' ''r1'']))
        (\<lambda>mid.
         seq (emit (LoggerWarning
                (no_artifacts_warning no_env ''r1'' ''clf'' (''models:/'' @ mid))))
           (\<lambda>u. succeed (Some ''r1'', Some mid, ''models:/'' @ mid))))
        (create_version_and_finish no_env client ''runs:/r1/clf'' ''clf''
           \<lparr>await_registration_for = None, opt_tags = None, local_model_path = None,
            env_pack = None\<rparr>)
        (?w4\<lparr>services := Suc (services ?w4),
             trace := trace ?w4 @ [SearchLoggedModels [''e1''] (name_filter ''clf'') None]\<rparr>)"
    by (rule seq_cong_run) (rule resolved)
  finally show ?thesis
    by (simp add: seq_assoc seq_succeed_fun)
qed

text \<open>
  C8. The claim is that, of several logged models that match, the one with the largest
  step in the outputs of the run is registered, which is also what the comment of line
  190 says. The code reads the step of every model found from a dictionary of the
  outputs, and a model found that the outputs do not name is a \<^verbatim>\<open>KeyError\<close>. For
  the URI \<^verbatim>\<open>runs:/r1/clf\<close>, a run \<^verbatim>\<open>r1\<close> whose outputs name the model
  \<^verbatim>\<open>m-1\<close> at step 1, and a search that finds the models \<^verbatim>\<open>m-1\<close> and
  \<^verbatim>\<open>m-3\<close> of the run, \<^verbatim>\<open>register_model\<close> raises that \<^verbatim>\<open>KeyError\<close> after the
  search: it creates no version, where the claim has \<^verbatim>\<open>m-1\<close> registered.
\<close>

theorem register_model_step_key_error:
  "register_model no_env one_output_client ''runs:/r1/clf'' ''clf'' None None None start =
     Some (Raised (OtherException ''KeyError'' (quoted ''m-3'')),
           \<lparr>services = 5,
            trace =
              [CreateRegisteredModel ''clf'', Eprint (registered_message ''clf''),
               NewRunsArtifactRepository ''runs:/r1/clf'', ListRunArtifacts ''runs:/r1/clf'',
               GetRun ''r1'', SearchLoggedModels [''e1''] (name_filter ''clf'') None],
            prompt_cache = []\<rparr>)"
proof -
  have steps: "model_id_to_step [\<lparr>output_model_id = ''m-1'', step = 1\<rparr>] = [''m-1'' \<mapsto> 1]"
    by (simp add: model_id_to_step_def)
  have "choose_model_id no_env ''r1'' run_one_output
      [demo_model ''m-1'' ''r1'', demo_model ''m-3'' ''r1''] =
      Raised (OtherException ''KeyError'' (quoted ''m-3''))"
    by (simp add: choose_model_id_def run_one_output_def steps py_max_def step_of_def
        demo_model_def)
  then show ?thesis
    by (simp add: register_two_models [where rn = run_one_output] one_output_client_def
        two_models_client_def run_one_output_def)
qed

text \<open>
  The dictionary keeps the last step that the outputs give for a model. With the outputs
  \<^verbatim>\<open>m-1\<close> at step 7, \<^verbatim>\<open>m-3\<close> at step 5 and \<^verbatim>\<open>m-1\<close> at step 1, the version
  is created for \<^verbatim>\<open>m-3\<close>.
\<close>

lemma register_model_last_step_counts:
  "register_model no_env logged_twice_client ''runs:/r1/clf'' ''clf'' None None None start =
     Some (Returned \<lparr>version_name = ''clf'', version = VersionStr ''1''\<rparr>,
           \<lparr>services = 10,
            trace =
              [CreateRegisteredModel ''clf'', Eprint (registered_message ''clf''),
               NewRunsArtifactRepository ''runs:/r1/clf'', ListRunArtifacts ''runs:/r1/clf'',
               GetRun ''r1'', SearchLoggedModels [''e1''] (name_filter ''clf'') None,
               LoggerWarning (no_artifacts_warning no_env ''r1'' ''clf'' ''models:/m-3''),
               CreateModelVersion
                 \<lparr>arg_name = ''clf'', arg_source = ''models:/m-3'', arg_run_id = Some ''r1'',
                  arg_tags = None, arg_await_creation_for = None,
                  arg_local_model_path = None, arg_model_id = Some ''m-3''\<rparr>,
               GetRegistryUri, PrintModelUrlsOnCreation,
               Eprint (created_message \<lparr>version_name = ''clf'', version = VersionStr ''1''\<rparr> @
                 ''.''),
               GetLoggedModel ''m-3'',
               SetLoggedModelTags ''m-3''
                 [(''mlflow.modelVersions'',
                   dumps (JList [JObject [(''name'', JStr ''clf''), (''version'', JStr ''1'')]]))]],
            prompt_cache = []\<rparr>)"
proof -
  have steps: "model_id_to_step
        [\<lparr>output_model_id = ''m-1'', step = 7\<rparr>,
         \<lparr>output_model_id = ''m-3'', step = 5\<rparr>,
         \<lparr>output_model_id = ''m-1'', step = 1\<rparr>] = [''m-1'' \<mapsto> 1, ''m-3'' \<mapsto> 5]"
    by (simp add: model_id_to_step_def fun_upd_twist)
  have "choose_model_id no_env ''r1'' run_logged_twice
      [demo_model ''m-1'' ''r1'', demo_model ''m-3'' ''r1''] = Returned ''m-3''"
    by (simp add: choose_model_id_def run_logged_twice_def steps py_max_def step_of_def
        demo_model_def)
  then show ?thesis
    by (simp add: register_two_models [where rn = run_logged_twice] logged_twice_client_def
        two_models_client_def run_logged_twice_def eval_simps create_version_and_finish_def
        model_id_or_parsed_def version_args_def pack_env_def print_created_message_def
        record_model_version_def new_versions_value_def version_entry_def json_of_version_def
        stage_model_def truthy_def demo_model_def)
qed

lemma record_model_version_appends:
  assumes "m \<noteq> []"
    and "get_logged_model client m (services w) = (Returned model, s1)"
    and "(\<not> truthy (tags model (MLFLOW_MODEL_VERSIONS env)) \<and> xs = []) \<or>
         (\<exists>v. tags model (MLFLOW_MODEL_VERSIONS env) = Some v \<and> v \<noteq> [] \<and>
              json_loads env v = Returned (JList xs))"
    and "set_logged_model_tags client m
           [(MLFLOW_MODEL_VERSIONS env, json_dumps env (JList (xs @ [version_entry mv])))] s1 =
         (r, s2)"
  shows "record_model_version env client (Some m) mv w =
     Some (r, w\<lparr>services := s2,
                trace := trace w @
                  [GetLoggedModel m,
                   SetLoggedModelTags m
                     [(MLFLOW_MODEL_VERSIONS env,
                       json_dumps env (JList (xs @ [version_entry mv])))]]\<rparr>)"
proof -
  have "new_versions_value env model (version_entry mv) =
          Returned (JList (xs @ [version_entry mv]))"
    using assms(3) by (auto simp: new_versions_value_def plus_list_def truthy_def)
  then show ?thesis
    using assms(1,2,4)
    by (simp add: record_model_version_def seq_perform_returned perform_eq)
qed

lemma version_entry_fields:
  "version_entry mv =
     JObject [(''name'', JStr (version_name mv)),
              (''version'',
               (case version mv of VersionStr s \<Rightarrow> JStr s | VersionInt i \<Rightarrow> JInt i))]"
  by (simp add: version_entry_def json_of_version_def)

lemma emits_create_version_and_finish:
  assumes "\<And>ev. \<forall>m kvs. ev \<noteq> SetLoggedModelTags m kvs \<Longrightarrow> P ev"
    and "\<And>m v. P (SetLoggedModelTags m [(MLFLOW_MODEL_VERSIONS env, v)])"
  shows "emits P (create_version_and_finish env client model_uri nm opts resolved)"
  unfolding create_version_and_finish_def
  by (intro emits_rules emits_perform emits_model_id_or_parsed emits_pack_env
      emits_print_created_message emits_record_model_version emits_stage_model assms) simp_all

lemma emits_register_model:
  assumes "\<And>ev. \<forall>m kvs. ev \<noteq> SetLoggedModelTags m kvs \<Longrightarrow> P ev"
    and "\<And>m v. P (SetLoggedModelTags m [(MLFLOW_MODEL_VERSIONS env, v)])"
  shows "emits P (register_model env client model_uri nm await tgs pack)"
  unfolding register_model_def register_model_impl_def
  by (intro emits_rules emits_create_or_reuse emits_resolve_source
      emits_create_version_and_finish assms) simp_all

text \<open>
  C9. Let \<^verbatim>\<open>register_model\<close> have resolved the model id \<open>m\<close>, not empty, and created
  the version \<open>mv\<close>; let the logged model \<open>m\<close> be returned, with the list \<open>xs\<close> stored
  under its tag \<^verbatim>\<open>MLFLOW_MODEL_VERSIONS\<close> (the empty list when the tag is absent or
  empty), and let the call that sets the tags return. Then that call follows the lookup of
  the logged model, and it sets, for the model \<open>m\<close>, the one tag
  \<^verbatim>\<open>MLFLOW_MODEL_VERSIONS\<close> to the serialised list that is \<open>xs\<close> with one entry
  appended at the end: the object with the key \<^verbatim>\<open>name\<close> for the name of \<open>mv\<close> and the
  key \<^verbatim>\<open>version\<close> for its version, a string or a number as the response has it. What
  remains of the function is the staging. Moreover, in every run of
  \<^verbatim>\<open>register_model\<close>, each call that sets tags of a logged model passes exactly that
  one key.
\<close>

theorem register_model_appends_version_tag:
  assumes "create_or_reuse_registered_model env client nm w = Some (Returned (), wa)"
    and "resolve_source env client model_uri wa = Some (Returned (rid, mid0, source), wb)"
    and "model_id_or_parsed env model_uri mid0 wb = Some (Returned (Some m), wc)"
    and "m \<noteq> []"
    and "pack_env env client model_uri (Some m) pack wc = Some (Returned (), w1)"
    and "create_model_version client
           \<lparr>arg_name = nm, arg_source = source, arg_run_id = rid, arg_tags = tgs,
            arg_await_creation_for = await, arg_local_model_path = None,
            arg_model_id = Some m\<rparr> (services w1) = (Returned mv, s2)"
    and "print_created_message env mv
           (w1\<lparr>services := s2,
               trace := trace w1 @
                 [CreateModelVersion
                    \<lparr>arg_name = nm, arg_source = source, arg_run_id = rid, arg_tags = tgs,
                     arg_await_creation_for = await, arg_local_model_path = None,
                     arg_model_id = Some m\<rparr>]\<rparr>) = Some (Returned (), w3)"
    and "get_logged_model client m (services w3) = (Returned model, s4)"
    and "(\<not> truthy (tags model (MLFLOW_MODEL_VERSIONS env)) \<and> xs = []) \<or>
         (\<exists>v. tags model (MLFLOW_MODEL_VERSIONS env) = Some v \<and> v \<noteq> [] \<and>
              json_loads env v = Returned (JList xs))"
    and "set_logged_model_tags client m
           [(MLFLOW_MODEL_VERSIONS env,
             json_dumps env
               (JList (xs @
                  [JObject [(''name'', JStr (version_name mv)),
                            (''version'',
                             (case version mv of
                                VersionStr s \<Rightarrow> JStr s
                              | VersionInt i \<Rightarrow> JInt i))]])))] s4 =
         (Returned (), s5)"
  shows "register_model env client model_uri nm await tgs pack w =
           seq (stage_model env mv pack) (\<lambda>u. succeed mv)
             (w3\<lparr>services := s5,
                 trace := trace w3 @
                   [GetLoggedModel m,
                    SetLoggedModelTags m
                      [(MLFLOW_MODEL_VERSIONS env,
                        json_dumps env
                          (JList (xs @
                             [JObject [(''name'', JStr (version_name mv)),
                                       (''version'',
                                        (case version mv of
                                           VersionStr s \<Rightarrow> JStr s
                                         | VersionInt i \<Rightarrow> JInt i))]])))]]\<rparr>) \<and>
         emits (writes_only (MLFLOW_MODEL_VERSIONS env))
           (register_model env client model_uri nm await tgs pack)"
proof (intro conjI)
  let ?opts = "\<lparr>await_registration_for = await, opt_tags = tgs, local_model_path = None,
              env_pack = pack\<rparr>"
  let ?args = "\<lparr>arg_name = nm, arg_source = source, arg_run_id = rid, arg_tags = tgs,
            arg_await_creation_for = await, arg_local_model_path = None,
            arg_model_id = Some m\<rparr>"
  let ?w5 = "w3\<lparr>services := s5,
                 trace := trace w3 @
                   [GetLoggedModel m,
                    SetLoggedModelTags m
                      [(MLFLOW_MODEL_VERSIONS env,
                        json_dumps env (JList (xs @ [version_entry mv])))]]\<rparr>"
  have args: "version_args nm ?opts rid (Some m) source = ?args"
    by (simp add: version_args_def)
  have written: "set_logged_model_tags client m
           [(MLFLOW_MODEL_VERSIONS env, json_dumps env (JList (xs @ [version_entry mv])))] s4 =
         (Returned (), s5)"
    using assms(10) by (simp only: version_entry_fields)
  have tagged: "record_model_version env client (Some m) mv w3 = Some (Returned (), ?w5)"
    by (rule record_model_version_appends [OF assms(4,8,9) written])
  have "create_version_and_finish env client model_uri nm ?opts (rid, mid0, source) wb =
      seq (stage_model env mv pack) (\<lambda>u. succeed mv) ?w5"
    unfolding create_version_and_finish_def
    by (simp add: args
        seq_returned [where m = "model_id_or_parsed env model_uri mid0", OF assms(3)]
        seq_perform_returned [where f = "create_model_version client ?args", OF assms(6)]
        seq_returned [where m = "pack_env env client model_uri (Some m) pack", OF assms(5)]
        seq_returned [where m = "print_created_message env mv", OF assms(7)]
        seq_returned [where m = "record_model_version env client (Some m) mv", OF tagged])
  then have "register_model env client model_uri nm await tgs pack w =
      seq (stage_model env mv pack) (\<lambda>u. succeed mv) ?w5"
    unfolding register_model_def register_model_impl_def
    by (simp add:
        seq_returned [where m = "create_or_reuse_registered_model env client nm", OF assms(1)]
        seq_returned [where m = "resolve_source env client model_uri", OF assms(2)])
  then show "register_model env client model_uri nm await tgs pack w =
           seq (stage_model env mv pack) (\<lambda>u. succeed mv)
             (w3\<lparr>services := s5,
                 trace := trace w3 @
                   [GetLoggedModel m,
                    SetLoggedModelTags m
                      [(MLFLOW_MODEL_VERSIONS env,
                        json_dumps env
                          (JList (xs @
                             [JObject [(''name'', JStr (version_name mv)),
                                       (''version'',
                                        (case version mv of
                                           VersionStr s \<Rightarrow> JStr s
                                         | VersionInt i \<Rightarrow> JInt i))]])))]]\<rparr>)"
    by (simp only: version_entry_fields)
  show "emits (writes_only (MLFLOW_MODEL_VERSIONS env))
           (register_model env client model_uri nm await tgs pack)"
  proof (rule emits_register_model)
    fix ev :: event
    assume "\<forall>m kvs. ev \<noteq> SetLoggedModelTags m kvs"
    then show "writes_only (MLFLOW_MODEL_VERSIONS env) ev"
      by (cases ev) simp_all
  qed simp
qed

text \<open>
  The example: the tag holds the list with the entry of version \<^verbatim>\<open>"1"\<close>, the store
  returns the new version as the integer 2, and the example \<open>dumps\<close> writes JSON text.
\<close>

lemma dumps_two_versions:
  \<open>dumps (JList [previous_entry, JObject [(''name'', JStr ''clf''), (''version'', JInt 2)]]) =
   ''[{"name": "clf", "version": "1"}, {"name": "clf", "version": 2}]''\<close>
  by code_simp

theorem register_model_appends_version_tag_witness:
  "register_model models_env tagged_model_client ''models:/m-7'' ''clf'' None None None start =
     Some (Returned \<lparr>version_name = ''clf'', version = VersionInt 2\<rparr>,
           \<lparr>services = 7,
            trace =
              [CreateRegisteredModel ''clf'', Eprint (registered_message ''clf''),
               ParseModelIdIfPresent ''models:/m-7'',
               CreateModelVersion
                 \<lparr>arg_name = ''clf'', arg_source = ''models:/m-7'', arg_run_id = None,
                  arg_tags = None, arg_await_creation_for = None,
                  arg_local_model_path = None, arg_model_id = Some ''m-7''\<rparr>,
               GetRegistryUri, PrintModelUrlsOnCreation,
               Eprint (created_message \<lparr>version_name = ''clf'', version = VersionInt 2\<rparr> @
                 ''.''),
               GetLoggedModel ''m-7'',
               SetLoggedModelTags ''m-7''
                 [(''mlflow.modelVersions'',
                   dumps (JList [previous_entry,
                                 JObject [(''name'', JStr ''clf''), (''version'', JInt 2)]]))]],
            prompt_cache = []\<rparr>)"
proof -
  let ?mv = "\<lparr>version_name = ''clf'', version = VersionInt 2\<rparr>"
  let ?args = "\<lparr>arg_name = ''clf'', arg_source = ''models:/m-7'', arg_run_id = None,
                  arg_tags = None, arg_await_creation_for = None,
                  arg_local_model_path = None, arg_model_id = Some ''m-7''\<rparr>"
  let ?wa = "\<lparr>services = 1,
              trace = [CreateRegisteredModel ''clf'', Eprint (registered_message ''clf'')],
              prompt_cache = []\<rparr>"
  let ?wc = "\<lparr>services = 2,
              trace = [CreateRegisteredModel ''clf'', Eprint (registered_message ''clf''),
                ParseModelIdIfPresent ''models:/m-7''],
              prompt_cache = []\<rparr>"
  let ?w3 = "\<lparr>services = 5,
              trace = [CreateRegisteredModel ''clf'', Eprint (registered_message ''clf''),
                ParseModelIdIfPresent ''models:/m-7'',
                CreateModelVersion ?args, GetRegistryUri, PrintModelUrlsOnCreation,
                Eprint (created_message ?mv @ ''.'')],
              prompt_cache = []\<rparr>"
  have created: "create_or_reuse_registered_model models_env tagged_model_client ''clf'' start =
      Some (Returned (), ?wa)"
    by (simp add: create_or_reuse_returned [where rm = "\<lparr>registered_name = ''clf''\<rparr>" and ?s1.0 = 1]
        tagged_model_client_def answer_def start_def)
  have resolved: "resolve_source models_env tagged_model_client ''models:/m-7'' ?wa =
      Some (Returned (None, None, ''models:/m-7''), ?wa)"
    by (simp add: resolve_source_def models_env_def succeed_def)
  have parsed: "model_id_or_parsed models_env ''models:/m-7'' None ?wa =
      Some (Returned (Some ''m-7''), ?wc)"
    by (simp add: model_id_or_parsed_def truthy_def models_env_def eval_simps)
  have nonempty: "''m-7'' \<noteq> []"
    by simp
  have packed: "pack_env models_env tagged_model_client ''models:/m-7'' (Some ''m-7'') None ?wc =
      Some (Returned (), ?wc)"
    by (simp add: pack_env_def succeed_def)
  have version: "create_model_version tagged_model_client ?args (services ?wc) =
      (Returned ?mv, 3)"
    by (simp add: tagged_model_client_def answer_def)
  have printed: "print_created_message models_env ?mv
      (?wc\<lparr>services := 3, trace := trace ?wc @ [CreateModelVersion ?args]\<rparr>) =
      Some (Returned (), ?w3)"
    by (simp add: print_created_message_def models_env_def eval_simps)
  have model: "get_logged_model tagged_model_client ''m-7'' (services ?w3) =
      (Returned tagged_model, 6)"
    by (simp add: tagged_model_client_def answer_def)
  have stored: "(\<not> truthy (tags tagged_model (MLFLOW_MODEL_VERSIONS models_env)) \<and>
        [previous_entry] = []) \<or>
      (\<exists>v. tags tagged_model (MLFLOW_MODEL_VERSIONS models_env) = Some v \<and> v \<noteq> [] \<and>
           json_loads models_env v = Returned (JList [previous_entry]))"
    by (simp add: tagged_model_def models_env_def)
  have written: "set_logged_model_tags tagged_model_client ''m-7''
      [(MLFLOW_MODEL_VERSIONS models_env,
        json_dumps models_env
          (JList ([previous_entry] @
             [JObject [(''name'', JStr (version_name ?mv)),
                       (''version'',
                        (case version ?mv of
                           VersionStr s \<Rightarrow> JStr s
                         | VersionInt i \<Rightarrow> JInt i))]])))] 6 =
      (Returned (), 7)"
    by (simp add: tagged_model_client_def answer_def)
  from register_model_appends_version_tag
    [OF created resolved parsed nonempty packed version printed model stored written,
      THEN conjunct1]
  show ?thesis
    by (simp add: stage_model_def eval_simps models_env_def)
qed
section \<open>Loading a prompt: the claims\<close>

lemma after_lookup_returned:
  assumes "after_lookup env client link_to_model mid found w = Some (Returned r, w')"
  shows "r = found"
proof (cases found)
  case None
  with assms show ?thesis by (simp add: after_lookup_def succeed_def)
next
  case (Some p)
  with assms have "seq (link_to_active_run env client p) (\<lambda>u.
          seq (start_link_thread env p link_to_model mid) (\<lambda>u.
          seq (register_in_trace env p) (\<lambda>u. succeed (Some p)))) w = Some (Returned r, w')"
    by (simp add: after_lookup_def)
  from seq_ReturnedD [OF this] obtain w1 where
    "seq (start_link_thread env p link_to_model mid) (\<lambda>u.
          seq (register_in_trace env p) (\<lambda>u. succeed (Some p))) w1 = Some (Returned r, w')"
    by auto
  from seq_ReturnedD [OF this] obtain w2 where
    "seq (register_in_trace env p) (\<lambda>u. succeed (Some p)) w2 = Some (Returned r, w')"
    by auto
  from seq_ReturnedD [OF this] obtain w3 where
    "succeed (Some p) w3 = Some (Returned r, w')"
    by auto
  with Some show ?thesis by (simp add: succeed_def)
qed

lemma lookup_event_cases:
  "lookup_event ev \<Longrightarrow>
   ev = RequirePromptRegistry \<or> (\<exists>msg. ev = WarningsWarn msg) \<or>
   (\<exists>nm ver allow_missing. ev = ClientLoadPrompt nm ver allow_missing)"
  by (cases ev) simp_all

text \<open>
  C10. Let the check of the decorator and the warning return, let
  \<^verbatim>\<open>allow_missing\<close> be true, and let the lookups return \<^verbatim>\<open>None\<close>: for a name
  with \<^verbatim>\<open>@\<close> that is the lookup without the cache, and for any other name the
  cached lookup and then the lookup without the cache. Then \<^verbatim>\<open>load_prompt\<close> returns
  \<^verbatim>\<open>None\<close> in the world that the last lookup left, so nothing is called after it;
  and every event that the function added is the check, the warning, or a call of
  \<^verbatim>\<open>client.load_prompt\<close>: no prompt is linked to a run or to a model, no thread is
  started, no prompt is registered in a trace.
\<close>

theorem load_prompt_missing_returns_none:
  assumes "require_prompt_registry env (services w) = (Returned (), s)"
    and "warnings_warn env (PROMPT_API_MIGRATION_MSG ''load_prompt'') s = (Returned (), s0)"
    and "w0 = w\<lparr>services := s0,
                 trace := trace w @
                   [RequirePromptRegistry,
                    WarningsWarn (PROMPT_API_MIGRATION_MSG ''load_prompt'')]\<rparr>"
    and "(CHR ''@'' \<in> set name_or_uri \<and>
          load_prompt_not_cached env client name_or_uri ver True w0 = Some (Returned None, w1)) \<or>
         (CHR ''@'' \<notin> set name_or_uri \<and>
          (\<exists>wc. load_prompt_cached env client name_or_uri ver True w0 = Some (Returned None, wc) \<and>
                load_prompt_not_cached env client name_or_uri ver True wc =
                  Some (Returned None, w1)))"
  shows "load_prompt env client name_or_uri ver True link_to_model mid w =
           Some (Returned None, w1) \<and>
         (\<forall>ev \<in> set (drop (length (trace w)) (trace w1)).
            ev = RequirePromptRegistry \<or> (\<exists>msg. ev = WarningsWarn msg) \<or>
            (\<exists>nm v a. ev = ClientLoadPrompt nm v a))"
proof -
  have looked: "lookup_prompt env client name_or_uri ver True w0 = Some (Returned None, w1)"
    using assms(4) by (auto simp: lookup_prompt_def seq_returned)
  have run: "load_prompt env client name_or_uri ver True link_to_model mid w =
      Some (Returned None, w1)"
    unfolding load_prompt_checked [OF assms(1,2)] assms(3) [symmetric]
    by (simp add: after_lookup_def succeed_def
        seq_returned [where m = "lookup_prompt env client name_or_uri ver True", OF looked])
  have "emits lookup_event (lookup_prompt env client name_or_uri ver True)"
    by (rule emits_lookup_prompt) simp
  from emitsD [OF this looked] obtain evs where
    evs: "trace w1 = trace w0 @ evs" "list_all lookup_event evs"
    by blast
  have "drop (length (trace w)) (trace w1) =
      [RequirePromptRegistry, WarningsWarn (PROMPT_API_MIGRATION_MSG ''load_prompt'')] @ evs"
    using evs(1) assms(3) by simp
  moreover have "\<forall>ev \<in> set evs. lookup_event ev"
    using evs(2) by (simp add: list_all_iff)
  ultimately have "\<forall>ev \<in> set (drop (length (trace w)) (trace w1)).
            ev = RequirePromptRegistry \<or> (\<exists>msg. ev = WarningsWarn msg) \<or>
            (\<exists>nm v a. ev = ClientLoadPrompt nm v a)"
    using lookup_event_cases by auto
  with run show ?thesis by blast
qed

theorem load_prompt_missing_returns_none_witness:
  "load_prompt no_env missing_prompt_client ''greeting'' (Some (VersionInt 2)) True True
     (Some ''m-1'') start =
     Some (Returned None,
           \<lparr>services = 4,
            trace =
              [RequirePromptRegistry, WarningsWarn (PROMPT_API_MIGRATION_MSG ''load_prompt''),
               ClientLoadPrompt ''greeting'' (Some (VersionInt 2)) True,
               ClientLoadPrompt ''greeting'' (Some (VersionInt 2)) True],
            prompt_cache = [((''greeting'', Some (VersionInt 2), True), None)]\<rparr>)"
proof -
  let ?w0 = "\<lparr>services = 2,
              trace = [RequirePromptRegistry,
                WarningsWarn (PROMPT_API_MIGRATION_MSG ''load_prompt'')],
              prompt_cache = []\<rparr>"
  let ?wc = "\<lparr>services = 3,
              trace = [RequirePromptRegistry,
                WarningsWarn (PROMPT_API_MIGRATION_MSG ''load_prompt''),
                ClientLoadPrompt ''greeting'' (Some (VersionInt 2)) True],
              prompt_cache = [((''greeting'', Some (VersionInt 2), True), None)]\<rparr>"
  let ?w1 = "\<lparr>services = 4,
              trace = [RequirePromptRegistry,
                WarningsWarn (PROMPT_API_MIGRATION_MSG ''load_prompt''),
                ClientLoadPrompt ''greeting'' (Some (VersionInt 2)) True,
                ClientLoadPrompt ''greeting'' (Some (VersionInt 2)) True],
              prompt_cache = [((''greeting'', Some (VersionInt 2), True), None)]\<rparr>"
  have checked: "require_prompt_registry no_env (services start) = (Returned (), 1)"
    by (simp add: answer_def start_def)
  have warned: "warnings_warn no_env (PROMPT_API_MIGRATION_MSG ''load_prompt'') 1 =
      (Returned (), 2)"
    by (simp add: answer_def)
  have w0: "?w0 = start\<lparr>services := 2,
                 trace := trace start @
                   [RequirePromptRegistry,
                    WarningsWarn (PROMPT_API_MIGRATION_MSG ''load_prompt'')]\<rparr>"
    by (simp add: start_def)
  have plain: "CHR ''@'' \<notin> set ''greeting''"
    by simp
  have direct: "\<And>w. load_prompt_not_cached no_env missing_prompt_client ''greeting''
      (Some (VersionInt 2)) True w =
      Some (Returned None,
            w\<lparr>services := Suc (services w),
              trace := trace w @ [ClientLoadPrompt ''greeting'' (Some (VersionInt 2)) True]\<rparr>)"
    by (simp add: load_prompt_not_cached_def missing_prompt_client_def eval_simps)
  have cached: "load_prompt_cached no_env missing_prompt_client ''greeting''
      (Some (VersionInt 2)) True ?w0 = Some (Returned None, ?wc)"
    by (simp add: load_prompt_cached_def lru_cache_def direct)
  have uncached: "load_prompt_not_cached no_env missing_prompt_client ''greeting''
      (Some (VersionInt 2)) True ?wc = Some (Returned None, ?w1)"
    by (simp add: direct)
  have lookups: "(CHR ''@'' \<in> set ''greeting'' \<and>
          load_prompt_not_cached no_env missing_prompt_client ''greeting''
            (Some (VersionInt 2)) True ?w0 = Some (Returned None, ?w1)) \<or>
         (CHR ''@'' \<notin> set ''greeting'' \<and>
          (\<exists>wc. load_prompt_cached no_env missing_prompt_client ''greeting''
                  (Some (VersionInt 2)) True ?w0 = Some (Returned None, wc) \<and>
                load_prompt_not_cached no_env missing_prompt_client ''greeting''
                  (Some (VersionInt 2)) True wc = Some (Returned None, ?w1)))"
    using plain cached uncached by blast
  from load_prompt_missing_returns_none [OF checked warned w0 lookups, THEN conjunct1]
  show ?thesis .
qed

lemma keeps_cache_uncached_path:
  "keeps_cache
     (seq (load_prompt_not_cached env client name_or_uri ver allow_missing)
        (after_lookup env client link_to_model mid))"
  by (intro keeps_cache_seq keeps_cache_load_prompt_not_cached keeps_cache_after_lookup)

text \<open>
  C7. Let the check of the decorator and the warning return, and let \<open>w0\<close> be the world
  they leave. For a name without \<^verbatim>\<open>@\<close>: if the cached lookup returns
  \<^verbatim>\<open>None\<close>, leaving the world \<open>w1\<close>, then \<^verbatim>\<open>load_prompt\<close> goes on from \<open>w1\<close>
  with the lookup without the cache, with no event in between, and with the rest of
  the function applied to what that lookup returns; so a prompt that \<^verbatim>\<open>load_prompt\<close>
  then returns is the one that the lookup without the cache returned, and an exception
  of that lookup is the outcome. For a name with \<^verbatim>\<open>@\<close>: \<^verbatim>\<open>load_prompt\<close> goes on
  from \<open>w0\<close> with the lookup without the cache, the cached function is not called, the
  outcome does not depend on what the cache holds, and the cache is left as it was.
\<close>

theorem load_prompt_falls_back_to_uncached:
  assumes "require_prompt_registry env (services w) = (Returned (), s)"
    and "warnings_warn env (PROMPT_API_MIGRATION_MSG ''load_prompt'') s = (Returned (), s0)"
    and "w0 = w\<lparr>services := s0,
                 trace := trace w @
                   [RequirePromptRegistry,
                    WarningsWarn (PROMPT_API_MIGRATION_MSG ''load_prompt'')]\<rparr>"
  shows "(CHR ''@'' \<notin> set name_or_uri \<and>
          load_prompt_cached env client name_or_uri ver allow_missing w0 =
            Some (Returned None, w1) \<longrightarrow>
          load_prompt env client name_or_uri ver allow_missing link_to_model mid w =
            seq (load_prompt_not_cached env client name_or_uri ver allow_missing)
              (after_lookup env client link_to_model mid) w1 \<and>
          (\<forall>found w2 r w'.
             load_prompt_not_cached env client name_or_uri ver allow_missing w1 =
               Some (Returned found, w2) \<and>
             load_prompt env client name_or_uri ver allow_missing link_to_model mid w =
               Some (Returned r, w') \<longrightarrow> r = found) \<and>
          (\<forall>e w2.
             load_prompt_not_cached env client name_or_uri ver allow_missing w1 =
               Some (Raised e, w2) \<longrightarrow>
             load_prompt env client name_or_uri ver allow_missing link_to_model mid w =
               Some (Raised e, w2))) \<and>
         (CHR ''@'' \<in> set name_or_uri \<longrightarrow>
          load_prompt env client name_or_uri ver allow_missing link_to_model mid w =
            seq (load_prompt_not_cached env client name_or_uri ver allow_missing)
              (after_lookup env client link_to_model mid) w0 \<and>
          (\<forall>c. load_prompt env client name_or_uri ver allow_missing link_to_model mid
                 (w\<lparr>prompt_cache := c\<rparr>) =
               map_option (\<lambda>(r, w'). (r, w'\<lparr>prompt_cache := c\<rparr>))
                 (load_prompt env client name_or_uri ver allow_missing link_to_model mid w)) \<and>
          (\<forall>r w'.
             load_prompt env client name_or_uri ver allow_missing link_to_model mid w =
               Some (r, w') \<longrightarrow> prompt_cache w' = prompt_cache w))"
proof (intro conjI impI)
  let ?direct = "load_prompt_not_cached env client name_or_uri ver allow_missing"
  let ?rest = "after_lookup env client link_to_model mid"
  let ?load = "load_prompt env client name_or_uri ver allow_missing link_to_model mid"
  have start: "?load w = seq (lookup_prompt env client name_or_uri ver allow_missing) ?rest w0"
    unfolding load_prompt_checked [OF assms(1,2)] assms(3) [symmetric] ..
  {
    assume a: "CHR ''@'' \<notin> set name_or_uri \<and>
          load_prompt_cached env client name_or_uri ver allow_missing w0 =
            Some (Returned None, w1)"
    then have cached: "load_prompt_cached env client name_or_uri ver allow_missing w0 =
        Some (Returned None, w1)"
      by simp
    from a have "lookup_prompt env client name_or_uri ver allow_missing w0 = ?direct w1"
      by (simp add: lookup_prompt_def
          seq_returned [where m = "load_prompt_cached env client name_or_uri ver allow_missing",
            OF cached])
    then have "seq (lookup_prompt env client name_or_uri ver allow_missing) ?rest w0 =
        seq ?direct ?rest w1"
      by (rule seq_cong_run)
    with start show eq: "?load w = seq ?direct ?rest w1"
      by simp
    show "\<forall>found w2 r w'.
             ?direct w1 = Some (Returned found, w2) \<and> ?load w = Some (Returned r, w') \<longrightarrow>
             r = found"
    proof (intro allI impI)
      fix found w2 r w'
      assume b: "?direct w1 = Some (Returned found, w2) \<and> ?load w = Some (Returned r, w')"
      then have d: "?direct w1 = Some (Returned found, w2)"
        and "seq ?direct ?rest w1 = Some (Returned r, w')"
        using eq by simp_all
      then have "?rest found w2 = Some (Returned r, w')"
        by (simp add: seq_returned [where m = ?direct, OF d])
      then show "r = found"
        by (rule after_lookup_returned)
    qed
    show "\<forall>e w2. ?direct w1 = Some (Raised e, w2) \<longrightarrow> ?load w = Some (Raised e, w2)"
      using eq by (simp add: seq_raised [where m = ?direct])
  }
  {
    assume by_alias: "CHR ''@'' \<in> set name_or_uri"
    then show eq: "?load w = seq ?direct ?rest w0"
      using start by (simp add: lookup_prompt_def)
    have any: "\<And>w. load_prompt env client name_or_uri ver allow_missing link_to_model mid w =
        seq (perform RequirePromptRegistry (require_prompt_registry env)) (\<lambda>u.
          seq (perform (WarningsWarn (PROMPT_API_MIGRATION_MSG ''load_prompt''))
                 (warnings_warn env (PROMPT_API_MIGRATION_MSG ''load_prompt''))) (\<lambda>u.
          seq ?direct ?rest)) w"
      using by_alias by (simp add: load_prompt_def load_prompt_wrapped_def lookup_prompt_def)
    show "\<forall>c. ?load (w\<lparr>prompt_cache := c\<rparr>) =
               map_option (\<lambda>(r, w'). (r, w'\<lparr>prompt_cache := c\<rparr>)) (?load w)"
      unfolding any
      by (intro allI cache_free_run cache_free_seq cache_free_perform
          cache_free_load_prompt_not_cached cache_free_after_lookup)
    have "prompt_cache w0 = prompt_cache w"
      by (simp add: assms(3))
    then show "\<forall>r w'. ?load w = Some (r, w') \<longrightarrow> prompt_cache w' = prompt_cache w"
      unfolding eq using keeps_cacheD [OF keeps_cache_uncached_path] by metis
  }
qed

theorem load_prompt_falls_back_to_uncached_witness:
  "load_prompt no_env late_prompt_client ''greeting'' (Some (VersionInt 2)) True False None
     start =
     Some (Returned (Some demo_prompt),
           \<lparr>services = 6,
            trace =
              [RequirePromptRegistry, WarningsWarn (PROMPT_API_MIGRATION_MSG ''load_prompt''),
               ClientLoadPrompt ''greeting'' (Some (VersionInt 2)) True,
               ClientLoadPrompt ''greeting'' (Some (VersionInt 2)) True,
               ActiveRun, GetActiveTraceId],
            prompt_cache = [((''greeting'', Some (VersionInt 2), True), None)]\<rparr>) \<and>
   load_prompt no_env alias_prompt_client ''prompts:/greeting@production'' None False False None
     start =
     Some (Returned (Some demo_prompt),
           \<lparr>services = 5,
            trace =
              [RequirePromptRegistry, WarningsWarn (PROMPT_API_MIGRATION_MSG ''load_prompt''),
               ClientLoadPrompt ''prompts:/greeting@production'' None False,
               ActiveRun, GetActiveTraceId],
            prompt_cache = []\<rparr>)"
proof (intro conjI)
  let ?w0 = "\<lparr>services = 2,
              trace = [RequirePromptRegistry,
                WarningsWarn (PROMPT_API_MIGRATION_MSG ''load_prompt'')],
              prompt_cache = []\<rparr>"
  let ?w1 = "\<lparr>services = 3,
              trace = [RequirePromptRegistry,
                WarningsWarn (PROMPT_API_MIGRATION_MSG ''load_prompt''),
                ClientLoadPrompt ''greeting'' (Some (VersionInt 2)) True],
              prompt_cache = [((''greeting'', Some (VersionInt 2), True), None)]\<rparr>"
  have checked: "require_prompt_registry no_env (services start) = (Returned (), 1)"
    by (simp add: answer_def start_def)
  have warned: "warnings_warn no_env (PROMPT_API_MIGRATION_MSG ''load_prompt'') 1 =
      (Returned (), 2)"
    by (simp add: answer_def)
  have w0: "?w0 = start\<lparr>services := 2,
                 trace := trace start @
                   [RequirePromptRegistry,
                    WarningsWarn (PROMPT_API_MIGRATION_MSG ''load_prompt'')]\<rparr>"
    by (simp add: start_def)
  have rest: "\<And>client w. after_lookup no_env client False None (Some demo_prompt) w =
      Some (Returned (Some demo_prompt),
            w\<lparr>services := Suc (Suc (services w)),
              trace := trace w @ [ActiveRun, GetActiveTraceId]\<rparr>)"
    by (simp add: after_lookup_def link_to_active_run_def start_link_thread_def
        register_in_trace_def eval_simps)
  have miss: "CHR ''@'' \<notin> set ''greeting'' \<and>
      load_prompt_cached no_env late_prompt_client ''greeting'' (Some (VersionInt 2)) True ?w0 =
        Some (Returned None, ?w1)"
    by (simp add: load_prompt_cached_def lru_cache_def load_prompt_not_cached_def
        late_prompt_client_def scripted_def perform_eq)
  have late: "load_prompt_not_cached no_env late_prompt_client ''greeting''
      (Some (VersionInt 2)) True ?w1 =
      Some (Returned (Some demo_prompt),
            \<lparr>services = 4,
             trace = [RequirePromptRegistry,
               WarningsWarn (PROMPT_API_MIGRATION_MSG ''load_prompt''),
               ClientLoadPrompt ''greeting'' (Some (VersionInt 2)) True,
               ClientLoadPrompt ''greeting'' (Some (VersionInt 2)) True],
             prompt_cache = [((''greeting'', Some (VersionInt 2), True), None)]\<rparr>)"
    by (simp add: load_prompt_not_cached_def late_prompt_client_def scripted_def perform_eq)
  from load_prompt_falls_back_to_uncached
    [OF checked warned w0, where ?w1.0 = ?w1, THEN conjunct1, rule_format, OF miss,
      THEN conjunct1]
  show "load_prompt no_env late_prompt_client ''greeting'' (Some (VersionInt 2)) True False None
     start =
     Some (Returned (Some demo_prompt),
           \<lparr>services = 6,
            trace =
              [RequirePromptRegistry, WarningsWarn (PROMPT_API_MIGRATION_MSG ''load_prompt''),
               ClientLoadPrompt ''greeting'' (Some (VersionInt 2)) True,
               ClientLoadPrompt ''greeting'' (Some (VersionInt 2)) True,
               ActiveRun, GetActiveTraceId],
            prompt_cache = [((''greeting'', Some (VersionInt 2), True), None)]\<rparr>)"
    by (simp add: rest
        seq_returned [where m = "load_prompt_not_cached no_env late_prompt_client ''greeting''
          (Some (VersionInt 2)) True", OF late])
  have named: "CHR ''@'' \<in> set ''prompts:/greeting@production''"
    by simp
  have direct: "load_prompt_not_cached no_env alias_prompt_client
      ''prompts:/greeting@production'' None False ?w0 =
      Some (Returned (Some demo_prompt),
            \<lparr>services = 3,
             trace = [RequirePromptRegistry,
               WarningsWarn (PROMPT_API_MIGRATION_MSG ''load_prompt''),
               ClientLoadPrompt ''prompts:/greeting@production'' None False],
             prompt_cache = []\<rparr>)"
    by (simp add: load_prompt_not_cached_def alias_prompt_client_def answer_def perform_eq)
  from load_prompt_falls_back_to_uncached
    [OF checked warned w0, THEN conjunct2, rule_format, OF named, THEN conjunct1]
  show "load_prompt no_env alias_prompt_client ''prompts:/greeting@production'' None False False
     None start =
     Some (Returned (Some demo_prompt),
           \<lparr>services = 5,
            trace =
              [RequirePromptRegistry, WarningsWarn (PROMPT_API_MIGRATION_MSG ''load_prompt''),
               ClientLoadPrompt ''prompts:/greeting@production'' None False,
               ActiveRun, GetActiveTraceId],
            prompt_cache = []\<rparr>)"
    by (simp add: rest
        seq_returned [where m = "load_prompt_not_cached no_env alias_prompt_client
          ''prompts:/greeting@production'' None False", OF direct])
qed







section \<open>Searching with pagination: the claim\<close>






end
